theory Spec2Isabelle
  imports Main "HOL-Library.Word" "HOL-Library.Sublist"
begin

section \<open>The host UART driver (Sming/Arch/Host/Components/driver/uart.cpp)\<close>

text \<open>
  The driver keeps four file-scope variables (the debug port number, the interrupt
  mask, the table of port instances and the table of notification callbacks) and
  works on heap-allocated \<open>smg_uart_t\<close> objects through pointers. The embedding
  passes one state record through every function. A port pointer is an address into
  an explicit store of live port objects, so that \<open>delete uart\<close> and a pointer that
  outlives its object are both visible.
\<close>

subsection \<open>Values declared in driver/uart.h\<close>

text \<open>
  The header driver/uart.h is not among the sources. The values of the macros and
  enumerators that uart.cpp takes from it are parameters of the model, collected in
  one record, and every theorem holds for all of them. \<open>SIZE_BITS\<close> is the width
  of \<open>size_t\<close>, the type in which \<open>smg_uart_init_ex\<close> computes the buffer sizes.
\<close>

record uart_h =
  UART_COUNT :: nat
  UART_NO :: int
  UART_RX_FIFO_SIZE :: nat
  UART_TX_FIFO_SIZE :: nat
  UART_PIN_DEFAULT :: "8 word"
  UART_OPT_TXWAIT :: nat
  SIZE_BITS :: nat

type_synonym byte = "8 word"

datatype smg_uart_mode_t = UART_FULL | UART_RX_ONLY | UART_TX_ONLY

datatype smg_uart_notify_code_t =
  UART_NOTIFY_AFTER_OPEN
| UART_NOTIFY_BEFORE_CLOSE
| UART_NOTIFY_BEFORE_READ
| UART_NOTIFY_AFTER_WRITE
| UART_NOTIFY_WAIT_TX

subsection \<open>SerialBuffer\<close>

text \<open>
  driver/SerialBuffer.h is not among the sources. The buffer is modelled from the
  specification's RingBuffer: a fixed capacity and the bytes currently held, oldest
  first.
\<close>

record SerialBuffer =
  buf_capacity :: nat
  buf_data :: "byte list"

text \<open>Modelled from the spec: SerialBuffer::isEmpty is missing; the buffer is empty
  when it holds no readable byte.\<close>
definition isEmpty :: "SerialBuffer \<Rightarrow> bool" where
  "isEmpty b = (buf_data b = [])"

text \<open>Modelled from the spec: SerialBuffer::available is missing; the number of
  readable bytes.\<close>
definition available :: "SerialBuffer \<Rightarrow> nat" where
  "available b = length (buf_data b)"

text \<open>Modelled from the spec: SerialBuffer::getFreeSpace is missing; the number of
  writable bytes, so that available plus free space is the capacity.\<close>
definition getFreeSpace :: "SerialBuffer \<Rightarrow> nat" where
  "getFreeSpace b = buf_capacity b - length (buf_data b)"

text \<open>Modelled from the spec: SerialBuffer::readChar is missing; \<open>read_byte\<close> takes
  the oldest byte and is only valid on a buffer that is not empty (\<open>None\<close> otherwise).\<close>
definition readChar :: "SerialBuffer \<Rightarrow> (byte \<times> SerialBuffer) option" where
  "readChar b =
     (case buf_data b of
        [] \<Rightarrow> None
      | c # cs \<Rightarrow> Some (c, b\<lparr>buf_data := cs\<rparr>))"

text \<open>Modelled from the spec: SerialBuffer::writeChar is missing; \<open>write_byte\<close>
  appends the byte and reports true, or reports false on a full buffer and leaves it
  as it is.\<close>
definition writeChar :: "SerialBuffer \<Rightarrow> byte \<Rightarrow> bool \<times> SerialBuffer" where
  "writeChar b c =
     (if length (buf_data b) < buf_capacity b
      then (True, b\<lparr>buf_data := buf_data b @ [c]\<rparr>)
      else (False, b))"

text \<open>Modelled from the spec: SerialBuffer::clear is missing; \<open>clear\<close> resets the
  buffer to empty and discards its content.\<close>
definition clear :: "SerialBuffer \<Rightarrow> SerialBuffer" where
  "clear b = b\<lparr>buf_data := []\<rparr>"

subsection \<open>Ports, configuration and the process-wide state\<close>

text \<open>
  The fields of \<open>smg_uart_t\<close> that uart.cpp reads or writes. The two buffers are
  owned by their port alone (no other pointer to them is ever made in this file), so
  they are held by value; \<open>None\<close> is the null pointer. The fields \<open>callback\<close> and
  \<open>param\<close> are left out: only \<open>smg_uart_set_callback\<close> touches them.
\<close>

record smg_uart_t =
  uart_nr :: "8 word"
  baud_rate :: "32 word"
  mode :: smg_uart_mode_t
  options :: "8 word"
  rx_pin :: "8 word"
  tx_pin :: "8 word"
  rx_headroom :: int
  rx_buffer :: "SerialBuffer option"
  tx_buffer :: "SerialBuffer option"

text \<open>The fields of \<open>smg_uart_config_t\<close> that \<open>smg_uart_init_ex\<close> reads.\<close>

record smg_uart_config_t =
  cfg_uart_nr :: "8 word"
  cfg_mode :: smg_uart_mode_t
  cfg_options :: "8 word"
  cfg_baudrate :: "32 word"
  cfg_format :: "32 word"
  cfg_rx_size :: nat
  cfg_tx_size :: nat

text \<open>
  A notification callback is application code that is handed the port. Its effect on
  the port is modelled as a function on the port's two ring buffers, which is what
  the code on the other side of the buffers (the consumer of TX, the producer of RX)
  works on.
\<close>

type_synonym smg_uart_notify_callback_t =
  "smg_uart_notify_code_t \<Rightarrow> SerialBuffer option \<times> SerialBuffer option
     \<Rightarrow> SerialBuffer option \<times> SerialBuffer option"

text \<open>
  The order of the driver's effects is recorded in a log: each call of \<open>notify\<close> and
  each change of a port's interrupt enable.
\<close>

datatype uart_event =
  EvNotify "8 word" smg_uart_notify_code_t
| EvStartIsr "8 word"
| EvStopIsr "8 word"
| EvDetach "8 word"

type_synonym uart_ptr = nat

text \<open>
  \<open>uartInstances\<close> and \<open>notifyCallbacks\<close> are arrays of \<open>UART_COUNT\<close> entries,
  read through \<open>array_get\<close> below. \<open>store\<close> holds the live port objects,
  \<open>live_buffers\<close> counts the SerialBuffer objects that are allocated and not yet
  deleted, and \<open>trace\<close> is the log of effects.
\<close>

record uart_state =
  s_uart_debug_nr :: int
  isrMask :: "8 word"
  uartInstances :: "nat \<Rightarrow> uart_ptr option"
  notifyCallbacks :: "nat \<Rightarrow> smg_uart_notify_callback_t option"
  store :: "uart_ptr \<Rightarrow> smg_uart_t option"
  live_buffers :: nat
  trace :: "uart_event list"

text \<open>What C leaves undefined is a fault of the model: a port pointer whose object is
  not live, and an index outside a table.\<close>

datatype fault = UseAfterFree | OutOfBounds

definition and_then :: "fault + 'a \<Rightarrow> ('a \<Rightarrow> fault + 'b) \<Rightarrow> fault + 'b" where
  "and_then r f = (case r of Inl e \<Rightarrow> Inl e | Inr x \<Rightarrow> f x)"

definition array_get :: "uart_h \<Rightarrow> (nat \<Rightarrow> 'a) \<Rightarrow> nat \<Rightarrow> fault + 'a" where
  "array_get h tbl i = (if i < UART_COUNT h then Inr (tbl i) else Inl OutOfBounds)"

definition deref :: "uart_state \<Rightarrow> uart_ptr \<Rightarrow> fault + smg_uart_t" where
  "deref st p = (case store st p of None \<Rightarrow> Inl UseAfterFree | Some u \<Rightarrow> Inr u)"

subsection \<open>Lookup\<close>

text \<open>\<open>return (uart_nr < UART_COUNT) ? uartInstances[uart_nr] : nullptr;\<close>\<close>

definition smg_uart_get_uart :: "uart_h \<Rightarrow> uart_state \<Rightarrow> 8 word \<Rightarrow> fault + uart_ptr option" where
  "smg_uart_get_uart h st nr =
     (if unat nr < UART_COUNT h then array_get h (uartInstances st) (unat nr) else Inr None)"

text \<open>A pointer argument is null (\<open>None\<close>) or is read through the store.\<close>

definition load :: "uart_state \<Rightarrow> uart_ptr option \<Rightarrow> fault + smg_uart_t option" where
  "load st uart =
     (case uart of
        None \<Rightarrow> Inr None
      | Some p \<Rightarrow> and_then (deref st p) (\<lambda>u. Inr (Some u)))"

text \<open>Modelled from the spec: the inline helper \<open>smg_uart_rx_enabled\<close> of
  driver/uart.h is missing; a direction is enabled on a port that is not null and
  whose mode does not exclude it.\<close>
definition smg_uart_rx_enabled :: "smg_uart_t option \<Rightarrow> bool" where
  "smg_uart_rx_enabled uart = (case uart of None \<Rightarrow> False | Some u \<Rightarrow> mode u \<noteq> UART_TX_ONLY)"

text \<open>Modelled from the spec: \<open>smg_uart_tx_enabled\<close> of driver/uart.h is missing; the
  same for the transmit direction.\<close>
definition smg_uart_tx_enabled :: "smg_uart_t option \<Rightarrow> bool" where
  "smg_uart_tx_enabled uart = (case uart of None \<Rightarrow> False | Some u \<Rightarrow> mode u \<noteq> UART_RX_ONLY)"

subsection \<open>Notification\<close>

text \<open>
  \<open>auto callback = notifyCallbacks[uart->uart_nr]; if(callback != nullptr) callback(uart, code);\<close>
  The pointer is never null where \<open>notify\<close> is called.
\<close>

definition notify :: "uart_h \<Rightarrow> uart_state \<Rightarrow> uart_ptr \<Rightarrow> smg_uart_notify_code_t \<Rightarrow> fault + uart_state" where
  "notify h st p code =
     and_then (deref st p) (\<lambda>u.
     and_then (array_get h (notifyCallbacks st) (unat (uart_nr u))) (\<lambda>callback.
       let st1 = st\<lparr>trace := trace st @ [EvNotify (uart_nr u) code]\<rparr>
       in (case callback of
             None \<Rightarrow> Inr st1
           | Some cb \<Rightarrow>
               (case cb code (rx_buffer u, tx_buffer u) of
                  (rx, tx) \<Rightarrow>
                    Inr (st1\<lparr>store := (store st1)(p \<mapsto> u\<lparr>rx_buffer := rx, tx_buffer := tx\<rparr>)\<rparr>)))))"

definition smg_uart_set_notify ::
  "uart_h \<Rightarrow> uart_state \<Rightarrow> nat \<Rightarrow> smg_uart_notify_callback_t option \<Rightarrow> bool \<times> uart_state" where
  "smg_uart_set_notify h st nr callback =
     (if UART_COUNT h \<le> nr then (False, st)
      else (True, st\<lparr>notifyCallbacks := (notifyCallbacks st)(nr := callback)\<rparr>))"

subsection \<open>Interrupt enable\<close>

text \<open>On the host \<open>smg_uart_disable_interrupts\<close> only returns the mask and
  \<open>smg_uart_restore_interrupts\<close> does nothing, so the calls around the buffer
  queries below leave no mark in the model.\<close>

definition smg_uart_disable_interrupts :: "uart_state \<Rightarrow> 8 word" where
  "smg_uart_disable_interrupts st = isrMask st"

definition smg_uart_start_isr :: "uart_state \<Rightarrow> uart_ptr \<Rightarrow> fault + uart_state" where
  "smg_uart_start_isr st p =
     and_then (deref st p) (\<lambda>u.
       let st1 = st\<lparr>trace := trace st @ [EvStartIsr (uart_nr u)]\<rparr>
       in if \<not> bit (isrMask st1) (unat (uart_nr u))
          then Inr (st1\<lparr>isrMask := set_bit (unat (uart_nr u)) (isrMask st1)\<rparr>)
          else Inr st1)"

text \<open>Modelled from the spec: \<open>smg_uart_stop_isr\<close> is called by uart.cpp and
  defined nowhere in the sources; \<open>stop(port_id)\<close> marks the port's interrupt
  disabled and is idempotent.\<close>
definition smg_uart_stop_isr :: "uart_state \<Rightarrow> uart_ptr \<Rightarrow> fault + uart_state" where
  "smg_uart_stop_isr st p =
     and_then (deref st p) (\<lambda>u.
       Inr (st\<lparr>isrMask := unset_bit (unat (uart_nr u)) (isrMask st),
               trace := trace st @ [EvStopIsr (uart_nr u)]\<rparr>))"

text \<open>\<open>bitClear(isrMask, uart_nr);\<close> The argument is an \<open>int\<close>; the driver passes
  a port number.\<close>

definition smg_uart_detach :: "uart_state \<Rightarrow> int \<Rightarrow> uart_state" where
  "smg_uart_detach st nr =
     st\<lparr>isrMask := unset_bit (nat nr) (isrMask st),
        trace := trace st @ [EvDetach (word_of_int nr)]\<rparr>"

subsection \<open>Reading\<close>

text \<open>\<open>while(read < size && !uart->rx_buffer->isEmpty()) buf[read++] = uart->rx_buffer->readChar();\<close>
  The first argument is \<open>size - read\<close>; the bytes are returned in the order in which
  they are stored into \<open>buf\<close>.\<close>

fun read_loop :: "nat \<Rightarrow> SerialBuffer \<Rightarrow> byte list \<times> SerialBuffer" where
  "read_loop 0 b = ([], b)"
| "read_loop (Suc n) b =
     (if isEmpty b then ([], b)
      else (case readChar b of
              None \<Rightarrow> ([], b)
            | Some (c, b1) \<Rightarrow> (case read_loop n b1 of (cs, b2) \<Rightarrow> (c # cs, b2))))"

text \<open>
  \<open>smg_uart_read\<close>: \<open>buffer\<close> says whether the destination pointer is not null
  and \<open>sz\<close> is the argument \<open>size\<close>. The result is the bytes stored into the
  destination, in order; the function's return value \<open>read\<close> is their number.
\<close>

definition smg_uart_read ::
  "uart_h \<Rightarrow> uart_state \<Rightarrow> uart_ptr option \<Rightarrow> bool \<Rightarrow> nat \<Rightarrow> fault + (byte list \<times> uart_state)" where
  "smg_uart_read h st uart buffer sz =
     and_then (load st uart) (\<lambda>ou.
       if \<not> smg_uart_rx_enabled ou \<or> \<not> buffer \<or> sz = 0 then Inr ([], st)
       else (case uart of
               None \<Rightarrow> Inr ([], st)
             | Some p \<Rightarrow>
                 and_then (notify h st p UART_NOTIFY_BEFORE_READ) (\<lambda>st1.
                 and_then (deref st1 p) (\<lambda>u.
                   (case rx_buffer u of
                      None \<Rightarrow> Inr ([], st1)
                    | Some b \<Rightarrow>
                        (case read_loop sz b of
                           (bs, b1) \<Rightarrow>
                             Inr (bs, st1\<lparr>store := (store st1)(p \<mapsto> u\<lparr>rx_buffer := Some b1\<rparr>)\<rparr>)))))))"

definition smg_uart_rx_available :: "uart_state \<Rightarrow> uart_ptr option \<Rightarrow> fault + nat" where
  "smg_uart_rx_available st uart =
     and_then (load st uart) (\<lambda>ou.
       if \<not> smg_uart_rx_enabled ou then Inr 0
       else (case ou of
               None \<Rightarrow> Inr 0
             | Some u \<Rightarrow> Inr (case rx_buffer u of None \<Rightarrow> 0 | Some b \<Rightarrow> available b)))"

subsection \<open>Writing\<close>

text \<open>\<open>while(written < size && uart->tx_buffer->writeChar(buf[written])) ++written;\<close>
  The second argument is the part of \<open>buf\<close> from \<open>written\<close> on; the result counts the
  bytes taken.\<close>

fun fill_loop :: "SerialBuffer \<Rightarrow> byte list \<Rightarrow> nat \<times> SerialBuffer" where
  "fill_loop b [] = (0, b)"
| "fill_loop b (c # cs) =
     (case writeChar b c of
        (False, b1) \<Rightarrow> (0, b1)
      | (True, b1) \<Rightarrow> (case fill_loop b1 cs of (n, b2) \<Rightarrow> (Suc n, b2)))"

text \<open>
  One pass of the outer loop of \<open>smg_uart_write\<close>: fill the TX buffer if there is
  one, call \<open>notify\<close> with \<open>AFTER_WRITE\<close>, read the wait option. The result is the
  new value of \<open>written\<close>, the state and \<open>bitRead(uart->options, UART_OPT_TXWAIT)\<close>.
\<close>

definition write_pass ::
  "uart_h \<Rightarrow> uart_state \<Rightarrow> uart_ptr \<Rightarrow> byte list \<Rightarrow> nat \<Rightarrow> fault + (nat \<times> uart_state \<times> bool)" where
  "write_pass h st p buf written =
     and_then (deref st p) (\<lambda>u.
       (case (case tx_buffer u of
                None \<Rightarrow> (written, st)
              | Some b \<Rightarrow>
                  (case fill_loop b (drop written buf) of
                     (n, b1) \<Rightarrow>
                       (written + n, st\<lparr>store := (store st)(p \<mapsto> u\<lparr>tx_buffer := Some b1\<rparr>)\<rparr>))) of
          (written1, st1) \<Rightarrow>
            and_then (notify h st1 p UART_NOTIFY_AFTER_WRITE) (\<lambda>st2.
            and_then (deref st2 p) (\<lambda>u2.
              Inr (written1, st2, bit (options u2) (UART_OPT_TXWAIT h))))))"

text \<open>\<open>while(written < size) { ...; if(!bitRead(uart->options, UART_OPT_TXWAIT)) break; }\<close>
  With the wait option set the loop runs until everything is written, which may be
  never: not returning is the value \<open>None\<close>.\<close>

partial_function (option) write_loop ::
  "uart_h \<Rightarrow> uart_ptr \<Rightarrow> byte list \<Rightarrow> nat \<Rightarrow> uart_state \<Rightarrow> (fault + (nat \<times> uart_state)) option" where
  "write_loop h p buf written st =
     (if written < length buf
      then (case write_pass h st p buf written of
              Inl e \<Rightarrow> Some (Inl e)
            | Inr (written1, st1, wait) \<Rightarrow>
                if \<not> wait then Some (Inr (written1, st1))
                else write_loop h p buf written1 st1)
      else Some (Inr (written, st)))"

text \<open>\<open>smg_uart_write\<close>: \<open>buffer\<close> is \<open>None\<close> for a null pointer and otherwise the
  \<open>size\<close> bytes at the pointer, so \<open>size\<close> is the length of the list.\<close>

definition smg_uart_write ::
  "uart_h \<Rightarrow> uart_state \<Rightarrow> uart_ptr option \<Rightarrow> byte list option \<Rightarrow> (fault + (nat \<times> uart_state)) option" where
  "smg_uart_write h st uart buffer =
     (case load st uart of
        Inl e \<Rightarrow> Some (Inl e)
      | Inr ou \<Rightarrow>
          if \<not> smg_uart_tx_enabled ou then Some (Inr (0, st))
          else (case buffer of
                  None \<Rightarrow> Some (Inr (0, st))
                | Some buf \<Rightarrow>
                    if length buf = 0 then Some (Inr (0, st))
                    else (case uart of
                            None \<Rightarrow> Some (Inr (0, st))
                          | Some p \<Rightarrow> write_loop h p buf 0 st)))"

definition smg_uart_tx_free :: "uart_state \<Rightarrow> uart_ptr option \<Rightarrow> fault + nat" where
  "smg_uart_tx_free st uart =
     and_then (load st uart) (\<lambda>ou.
       if \<not> smg_uart_tx_enabled ou then Inr 0
       else (case ou of
               None \<Rightarrow> Inr 0
             | Some u \<Rightarrow> Inr (case tx_buffer u of None \<Rightarrow> 0 | Some b \<Rightarrow> getFreeSpace b)))"

subsection \<open>Flushing\<close>

definition smg_uart_flush :: "uart_state \<Rightarrow> uart_ptr option \<Rightarrow> smg_uart_mode_t \<Rightarrow> fault + uart_state" where
  "smg_uart_flush st uart m =
     (case uart of
        None \<Rightarrow> Inr st
      | Some p \<Rightarrow>
          and_then (deref st p) (\<lambda>u.
            let flushRx = (m \<noteq> UART_TX_ONLY \<and> mode u \<noteq> UART_TX_ONLY);
                flushTx = (m \<noteq> UART_RX_ONLY \<and> mode u \<noteq> UART_RX_ONLY);
                rx = (if flushRx \<and> rx_buffer u \<noteq> None
                      then map_option clear (rx_buffer u) else rx_buffer u);
                tx = (if flushTx \<and> tx_buffer u \<noteq> None
                      then map_option clear (tx_buffer u) else tx_buffer u)
            in Inr (st\<lparr>store := (store st)(p \<mapsto> u\<lparr>rx_buffer := rx, tx_buffer := tx\<rparr>)\<rparr>)))"

subsection \<open>Baud rate, format, debug port\<close>

definition smg_uart_set_baudrate_reg :: "int \<Rightarrow> 32 word \<Rightarrow> 32 word" where
  "smg_uart_set_baudrate_reg nr baud = baud"

definition smg_uart_set_baudrate ::
  "uart_state \<Rightarrow> uart_ptr option \<Rightarrow> 32 word \<Rightarrow> fault + (32 word \<times> uart_state)" where
  "smg_uart_set_baudrate st uart baud =
     (case uart of
        None \<Rightarrow> Inr (0, st)
      | Some p \<Rightarrow>
          and_then (deref st p) (\<lambda>u.
            let baud1 = smg_uart_set_baudrate_reg (uint (uart_nr u)) baud
            in Inr (baud1, st\<lparr>store := (store st)(p \<mapsto> u\<lparr>baud_rate := baud1\<rparr>)\<rparr>)))"

text \<open>\<open>smg_uart_set_format\<close> is not implemented on the host: it does nothing.\<close>

definition smg_uart_set_format :: "uart_state \<Rightarrow> uart_ptr option \<Rightarrow> 32 word \<Rightarrow> uart_state" where
  "smg_uart_set_format st uart format = st"

definition smg_uart_set_debug :: "uart_state \<Rightarrow> int \<Rightarrow> uart_state" where
  "smg_uart_set_debug st nr = st\<lparr>s_uart_debug_nr := nr\<rparr>"

definition smg_uart_get_debug :: "uart_state \<Rightarrow> int" where
  "smg_uart_get_debug st = s_uart_debug_nr st"

subsection \<open>Opening and closing a port\<close>

text \<open>\<open>RX_FIFO_FULL_THRESHOLD\<close>, \<open>RX_FIFO_HEADROOM\<close> and \<open>DEFAULT_RX_HEADROOM\<close>,
  in the \<open>int\<close> arithmetic of the macros.\<close>

definition RX_FIFO_FULL_THRESHOLD :: int where
  "RX_FIFO_FULL_THRESHOLD = 120"

definition RX_FIFO_HEADROOM :: "uart_h \<Rightarrow> int" where
  "RX_FIFO_HEADROOM h = int (UART_RX_FIFO_SIZE h) - RX_FIFO_FULL_THRESHOLD"

definition DEFAULT_RX_HEADROOM :: "uart_h \<Rightarrow> int" where
  "DEFAULT_RX_HEADROOM h = 32 - RX_FIFO_HEADROOM h"

text \<open>
  What the allocator answers during one call of \<open>smg_uart_init_ex\<close>: the address
  returned by \<open>new smg_uart_t\<close> (\<open>None\<close> for a null result), and whether the
  allocation of the RX buffer and of the TX buffer succeeds.
\<close>

record allocator =
  new_uart :: "uart_ptr option"
  new_rx_buffer :: bool
  new_tx_buffer :: bool

text \<open>Modelled from the spec: \<open>smg_uart_realloc_buffer\<close> is missing; a buffer is
  resized only by allocating a new one of the requested capacity, the old content is
  discarded, and a failed allocation reports failure and leaves the buffer as it was.
  The result is the return value, the new value of the buffer reference and the
  state.\<close>
definition smg_uart_realloc_buffer ::
  "bool \<Rightarrow> uart_state \<Rightarrow> SerialBuffer option \<Rightarrow> nat \<Rightarrow> bool \<times> SerialBuffer option \<times> uart_state" where
  "smg_uart_realloc_buffer ok st buffer new_size =
     (if ok
      then (True, Some \<lparr>buf_capacity = new_size, buf_data = []\<rparr>,
            st\<lparr>live_buffers := live_buffers st + (if buffer = None then 1 else 0)\<rparr>)
      else (False, buffer, st))"

text \<open>\<open>delete buffer\<close>, which does nothing for a null pointer, and \<open>delete uart\<close>.\<close>

definition delete_buffer :: "uart_state \<Rightarrow> SerialBuffer option \<Rightarrow> uart_state" where
  "delete_buffer st buffer =
     (case buffer of None \<Rightarrow> st | Some b \<Rightarrow> st\<lparr>live_buffers := live_buffers st - 1\<rparr>)"

definition delete_uart :: "uart_state \<Rightarrow> uart_ptr \<Rightarrow> uart_state" where
  "delete_uart st p = st\<lparr>store := (store st)(p := None)\<rparr>"

definition array_set :: "uart_h \<Rightarrow> (nat \<Rightarrow> 'a) \<Rightarrow> nat \<Rightarrow> 'a \<Rightarrow> fault + (nat \<Rightarrow> 'a)" where
  "array_set h tbl i v = (if i < UART_COUNT h then Inr (tbl(i := v)) else Inl OutOfBounds)"

text \<open>
  The second half of \<open>smg_uart_init_ex\<close>, from the comment
  \<open>OK, buffers allocated so setup hardware\<close> on: detach, baud rate, format, flush,
  registration, interrupt enable, \<open>AFTER_OPEN\<close>. The source calls
  \<open>smg_uart_flush(uart)\<close> and leaves the mode to the default that the header
  declares, taken here as \<open>UART_FULL\<close>; the buffers are new and empty at this point,
  so any other default gives the same state.
\<close>

definition setup_hardware ::
  "uart_h \<Rightarrow> uart_state \<Rightarrow> uart_ptr \<Rightarrow> smg_uart_config_t \<Rightarrow> fault + (uart_ptr option \<times> uart_state)" where
  "setup_hardware h st p cfg =
     (let st1 = smg_uart_detach st (uint (cfg_uart_nr cfg))
      in and_then (smg_uart_set_baudrate st1 (Some p) (cfg_baudrate cfg)) (\<lambda>(baud, st2).
         let st3 = smg_uart_set_format st2 (Some p) (cfg_format cfg)
         in and_then (smg_uart_flush st3 (Some p) UART_FULL) (\<lambda>st4.
            and_then (array_set h (uartInstances st4) (unat (cfg_uart_nr cfg)) (Some p)) (\<lambda>tbl.
            and_then (smg_uart_start_isr (st4\<lparr>uartInstances := tbl\<rparr>) p) (\<lambda>st5.
            and_then (notify h st5 p UART_NOTIFY_AFTER_OPEN) (\<lambda>st6.
              Inr (Some p, st6)))))))"

text \<open>
  \<open>smg_uart_init_ex\<close>. The result is the pointer returned (\<open>None\<close> is
  \<open>nullptr\<close>) and the state. The sum of a requested size and a FIFO size wraps
  around in \<open>size_t\<close>.
\<close>

definition smg_uart_init_ex ::
  "uart_h \<Rightarrow> allocator \<Rightarrow> uart_state \<Rightarrow> smg_uart_config_t \<Rightarrow> fault + (uart_ptr option \<times> uart_state)" where
  "smg_uart_init_ex h al st cfg =
     and_then (smg_uart_get_uart h st (cfg_uart_nr cfg)) (\<lambda>existing.
       if existing \<noteq> None then Inr (None, st)
       else if UART_COUNT h \<le> unat (cfg_uart_nr cfg) then Inr (None, st)
       else (case new_uart al of
               None \<Rightarrow> Inr (None, st)
             | Some p \<Rightarrow>
                 let u0 = \<lparr>uart_nr = cfg_uart_nr cfg, baud_rate = 0, mode = cfg_mode cfg,
                           options = cfg_options cfg, rx_pin = UART_PIN_DEFAULT h,
                           tx_pin = UART_PIN_DEFAULT h, rx_headroom = DEFAULT_RX_HEADROOM h,
                           rx_buffer = None, tx_buffer = None\<rparr>;
                     st0 = st\<lparr>store := (store st)(p \<mapsto> u0)\<rparr>;
                     rxBufferSize = (cfg_rx_size cfg + UART_RX_FIFO_SIZE h) mod 2 ^ SIZE_BITS h;
                     txBufferSize = (cfg_tx_size cfg + UART_TX_FIFO_SIZE h) mod 2 ^ SIZE_BITS h
                 in (case (if smg_uart_rx_enabled (Some u0)
                           then smg_uart_realloc_buffer (new_rx_buffer al) st0 (rx_buffer u0) rxBufferSize
                           else (True, rx_buffer u0, st0)) of
                       (rx_ok, rxb, st1) \<Rightarrow>
                         if \<not> rx_ok then Inr (None, delete_uart st1 p)
                         else
                           (case (if smg_uart_tx_enabled (Some u0)
                                  then smg_uart_realloc_buffer (new_tx_buffer al) st1 (tx_buffer u0) txBufferSize
                                  else (True, tx_buffer u0, st1)) of
                              (tx_ok, txb, st2) \<Rightarrow>
                                if \<not> tx_ok then Inr (None, delete_uart (delete_buffer st2 rxb) p)
                                else setup_hardware h
                                       (st2\<lparr>store := (store st2)(p \<mapsto> u0\<lparr>rx_buffer := rxb, tx_buffer := txb\<rparr>)\<rparr>)
                                       p cfg))))"

text \<open>\<open>smg_uart_uninit\<close>.\<close>

definition smg_uart_uninit :: "uart_h \<Rightarrow> uart_state \<Rightarrow> uart_ptr option \<Rightarrow> fault + uart_state" where
  "smg_uart_uninit h st uart =
     (case uart of
        None \<Rightarrow> Inr st
      | Some p \<Rightarrow>
          and_then (notify h st p UART_NOTIFY_BEFORE_CLOSE) (\<lambda>st1.
          and_then (smg_uart_stop_isr st1 p) (\<lambda>st2.
          and_then (deref st2 p) (\<lambda>u.
            let st3 = (if uint (uart_nr u) = s_uart_debug_nr st2
                       then smg_uart_set_debug st2 (UART_NO h) else st2);
                st4 = delete_buffer st3 (rx_buffer u);
                st5 = delete_buffer st4 (tx_buffer u)
            in Inr (delete_uart st5 p)))))"

subsection \<open>Sequences of calls\<close>

text \<open>
  A sequence of calls of \<open>smg_uart_write\<close> on one port, one call for each list of
  bytes. The result collects the bytes that the calls report as written (of each
  buffer the first \<open>written\<close> bytes) and is \<open>None\<close> when a call does not return.
\<close>

fun write_all ::
  "uart_h \<Rightarrow> uart_state \<Rightarrow> uart_ptr \<Rightarrow> byte list list \<Rightarrow> (fault + (byte list \<times> uart_state)) option" where
  "write_all h st p [] = Some (Inr ([], st))"
| "write_all h st p (buf # bufs) =
     (case smg_uart_write h st (Some p) (Some buf) of
        None \<Rightarrow> None
      | Some (Inl e) \<Rightarrow> Some (Inl e)
      | Some (Inr (n, st1)) \<Rightarrow>
          (case write_all h st1 p bufs of
             None \<Rightarrow> None
           | Some (Inl e) \<Rightarrow> Some (Inl e)
           | Some (Inr (acc, st2)) \<Rightarrow> Some (Inr (take n buf @ acc, st2))))"

subsection \<open>Notions used in the statements\<close>

text \<open>What the callback registered for a port does to the port's buffers, and nothing
  when no callback is registered.\<close>

definition run_callback ::
  "smg_uart_notify_callback_t option \<Rightarrow> smg_uart_notify_code_t
     \<Rightarrow> SerialBuffer option \<times> SerialBuffer option \<Rightarrow> SerialBuffer option \<times> SerialBuffer option" where
  "run_callback callback code bufs = (case callback of None \<Rightarrow> bufs | Some cb \<Rightarrow> cb code bufs)"

text \<open>The content of a buffer reference (a null buffer holds nothing), the room in a
  port's TX buffer, and a buffer after as many of the given bytes as fit are
  appended.\<close>

definition buffer_bytes :: "SerialBuffer option \<Rightarrow> byte list" where
  "buffer_bytes buffer = (case buffer of None \<Rightarrow> [] | Some b \<Rightarrow> buf_data b)"

definition tx_space :: "smg_uart_t \<Rightarrow> nat" where
  "tx_space u = (case tx_buffer u of None \<Rightarrow> 0 | Some b \<Rightarrow> getFreeSpace b)"

definition enqueue :: "SerialBuffer option \<Rightarrow> byte list \<Rightarrow> SerialBuffer option" where
  "enqueue buffer bytes =
     map_option (\<lambda>b. b\<lparr>buf_data := buf_data b @ take (getFreeSpace b) bytes\<rparr>) buffer"

text \<open>
  What the specification says one pass of a write does, when the bytes \<open>rest\<close> are
  still to be written: the TX buffer takes as many of them as fit, then the port's
  callback, if there is one, is notified with \<open>AFTER_WRITE\<close> and works on the
  buffers; the notification is logged.
\<close>

definition pass_state :: "uart_state \<Rightarrow> uart_ptr \<Rightarrow> smg_uart_t \<Rightarrow> byte list \<Rightarrow> uart_state" where
  "pass_state st p u rest =
     st\<lparr>store := (store st)(p \<mapsto> u
           \<lparr>rx_buffer := fst (run_callback (notifyCallbacks st (unat (uart_nr u)))
                               UART_NOTIFY_AFTER_WRITE (rx_buffer u, enqueue (tx_buffer u) rest)),
            tx_buffer := snd (run_callback (notifyCallbacks st (unat (uart_nr u)))
                               UART_NOTIFY_AFTER_WRITE (rx_buffer u, enqueue (tx_buffer u) rest))\<rparr>),
        trace := trace st @ [EvNotify (uart_nr u) UART_NOTIFY_AFTER_WRITE]\<rparr>"

text \<open>
  What the specification says a waiting write does, as a relation between the state
  before and the state after: \<open>wait_passes p buf written st chunks st1\<close> holds
  when, starting with \<open>written\<close> bytes of \<open>buf\<close> done in state \<open>st\<close>, a series of
  passes ends in \<open>st1\<close> with all of \<open>buf\<close> written. Each pass puts into the TX
  buffer the next bytes of \<open>buf\<close>, as many as the buffer has room for at that
  moment (the pass's chunk), and there is a further pass exactly when bytes are left.
  \<open>chunks\<close> lists the chunks of the passes in order.
\<close>

inductive wait_passes ::
  "uart_ptr \<Rightarrow> byte list \<Rightarrow> nat \<Rightarrow> uart_state \<Rightarrow> byte list list \<Rightarrow> uart_state \<Rightarrow> bool"
  for p :: uart_ptr and buf :: "byte list" where
  last_pass:
    "\<lbrakk>store st p = Some u; chunk = take (tx_space u) (drop written buf);
      written + length chunk = length buf\<rbrakk>
     \<Longrightarrow> wait_passes p buf written st [chunk] (pass_state st p u (drop written buf))"
| next_pass:
    "\<lbrakk>store st p = Some u; chunk = take (tx_space u) (drop written buf);
      written + length chunk < length buf;
      wait_passes p buf (written + length chunk) (pass_state st p u (drop written buf)) chunks st1\<rbrakk>
     \<Longrightarrow> wait_passes p buf written st (chunk # chunks) st1"

text \<open>
  A cooperating consumer: a callback that, notified after a write, leaves room in a
  TX buffer of positive capacity (it has taken at least one byte out of a full one).
\<close>

definition cooperating_consumer :: "smg_uart_notify_callback_t \<Rightarrow> bool" where
  "cooperating_consumer cb =
     (\<forall>rx b. 0 < buf_capacity b \<longrightarrow>
        (\<exists>rx1 b1. cb UART_NOTIFY_AFTER_WRITE (rx, Some b) = (rx1, Some b1) \<and> 0 < getFreeSpace b1))"

text \<open>
  A callback that leaves the RX buffer alone: it is not a producer of received data.
  \<open>rx_quiet\<close> says that a port is live, that its number is inside the tables and
  that the callback registered for it, if any, is of this kind.
\<close>

definition rx_inert :: "smg_uart_notify_callback_t \<Rightarrow> bool" where
  "rx_inert cb = (\<forall>code rx tx. fst (cb code (rx, tx)) = rx)"

definition rx_quiet :: "uart_h \<Rightarrow> uart_state \<Rightarrow> uart_ptr \<Rightarrow> smg_uart_t \<Rightarrow> bool" where
  "rx_quiet h st p u =
     (store st p = Some u \<and> unat (uart_nr u) < UART_COUNT h \<and>
      (\<forall>cb. notifyCallbacks st (unat (uart_nr u)) = Some cb \<longrightarrow> rx_inert cb))"

text \<open>
  The port object that \<open>smg_uart_init_ex\<close> has built when both allocations have
  succeeded, and the conditions under which it gives up: the number is outside the
  table, a port is registered under it, or one of the three allocations fails.
\<close>

definition fresh_port :: "uart_h \<Rightarrow> smg_uart_config_t \<Rightarrow> smg_uart_t" where
  "fresh_port h cfg =
     \<lparr>uart_nr = cfg_uart_nr cfg, baud_rate = 0, mode = cfg_mode cfg,
      options = cfg_options cfg, rx_pin = UART_PIN_DEFAULT h, tx_pin = UART_PIN_DEFAULT h,
      rx_headroom = DEFAULT_RX_HEADROOM h,
      rx_buffer = (if cfg_mode cfg \<noteq> UART_TX_ONLY
                   then Some \<lparr>buf_capacity = (cfg_rx_size cfg + UART_RX_FIFO_SIZE h) mod 2 ^ SIZE_BITS h,
                              buf_data = []\<rparr>
                   else None),
      tx_buffer = (if cfg_mode cfg \<noteq> UART_RX_ONLY
                   then Some \<lparr>buf_capacity = (cfg_tx_size cfg + UART_TX_FIFO_SIZE h) mod 2 ^ SIZE_BITS h,
                              buf_data = []\<rparr>
                   else None)\<rparr>"

definition init_fails :: "uart_h \<Rightarrow> allocator \<Rightarrow> uart_state \<Rightarrow> smg_uart_config_t \<Rightarrow> bool" where
  "init_fails h al st cfg =
     (UART_COUNT h \<le> unat (cfg_uart_nr cfg) \<or>
      smg_uart_get_uart h st (cfg_uart_nr cfg) \<noteq> Inr None \<or>
      new_uart al = None \<or>
      (cfg_mode cfg \<noteq> UART_TX_ONLY \<and> \<not> new_rx_buffer al) \<or>
      (cfg_mode cfg \<noteq> UART_RX_ONLY \<and> \<not> new_tx_buffer al))"

text \<open>The position of two events in a log: \<open>a\<close> occurs, and \<open>b\<close> occurs after the
  first \<open>a\<close>.\<close>

definition occurs_before :: "uart_event \<Rightarrow> uart_event \<Rightarrow> uart_event list \<Rightarrow> bool" where
  "occurs_before a b evs = (a \<in> set evs \<and> b \<in> set (dropWhile (\<lambda>e. e \<noteq> a) evs))"

subsection \<open>Concrete inputs\<close>

text \<open>
  Values of the header's constants as on the ESP8266 (three ports, 128-byte FIFOs),
  the state of a process that has not called the driver yet (the statics as
  initialised), a configuration and an allocator that succeeds.
\<close>

definition sample_h :: uart_h where
  "sample_h = \<lparr>UART_COUNT = 3, UART_NO = - 1, UART_RX_FIFO_SIZE = 128,
               UART_TX_FIFO_SIZE = 128, UART_PIN_DEFAULT = 255, UART_OPT_TXWAIT = 0,
               SIZE_BITS = 64\<rparr>"

definition boot_state :: "uart_h \<Rightarrow> uart_state" where
  "boot_state h = \<lparr>s_uart_debug_nr = UART_NO h, isrMask = 0,
                   uartInstances = (\<lambda>i. None), notifyCallbacks = (\<lambda>i. None),
                   store = (\<lambda>p. None), live_buffers = 0, trace = []\<rparr>"

definition sample_cfg :: smg_uart_config_t where
  "sample_cfg = \<lparr>cfg_uart_nr = 0, cfg_mode = UART_FULL, cfg_options = 0,
                 cfg_baudrate = 115200, cfg_format = 0, cfg_rx_size = 64, cfg_tx_size = 64\<rparr>"

definition sample_alloc :: allocator where
  "sample_alloc = \<lparr>new_uart = Some 1, new_rx_buffer = True, new_tx_buffer = True\<rparr>"

text \<open>
  A state with one open port: port 0 at address 1, both directions enabled, two
  bytes waiting in its RX buffer and a TX buffer of two bytes that is full.
\<close>

definition sample_port :: smg_uart_t where
  "sample_port = \<lparr>uart_nr = 0, baud_rate = 115200, mode = UART_FULL, options = 0,
                  rx_pin = 255, tx_pin = 255, rx_headroom = 24,
                  rx_buffer = Some \<lparr>buf_capacity = 4, buf_data = [1, 2]\<rparr>,
                  tx_buffer = Some \<lparr>buf_capacity = 2, buf_data = [3, 4]\<rparr>\<rparr>"

definition sample_state :: uart_state where
  "sample_state = \<lparr>s_uart_debug_nr = - 1, isrMask = 1,
                   uartInstances = (\<lambda>i. None)(0 \<mapsto> 1), notifyCallbacks = (\<lambda>i. None),
                   store = (\<lambda>p. None)(1 \<mapsto> sample_port), live_buffers = 2, trace = []\<rparr>"

text \<open>A consumer that takes everything out of the TX buffer whenever it is notified.\<close>

definition drain_tx :: smg_uart_notify_callback_t where
  "drain_tx code bufs = (fst bufs, map_option clear (snd bufs))"

text \<open>The sample state with the wait option set on the port (bit 0 of its options)
  and this consumer registered for port 0.\<close>

definition sample_wait_state :: uart_state where
  "sample_wait_state = \<lparr>s_uart_debug_nr = - 1, isrMask = 1,
                   uartInstances = (\<lambda>i. None)(0 \<mapsto> 1),
                   notifyCallbacks = (\<lambda>i. None)(0 \<mapsto> drain_tx),
                   store = (\<lambda>p. None)(1 \<mapsto> sample_port\<lparr>options := 1\<rparr>),
                   live_buffers = 2, trace = []\<rparr>"

text \<open>
  A producer of received data: a callback that, notified before a read, puts the
  byte 7 into the RX buffer if there is room. The sample state with this callback
  registered for port 0, and the state of a fresh process after
  \<open>smg_uart_set_notify\<close> has registered it for port 0.
\<close>

definition feed_rx :: smg_uart_notify_callback_t where
  "feed_rx code bufs =
     (if code = UART_NOTIFY_BEFORE_READ
      then (map_option (\<lambda>b. snd (writeChar b 7)) (fst bufs), snd bufs)
      else bufs)"

definition sample_producer_state :: uart_state where
  "sample_producer_state = sample_state\<lparr>notifyCallbacks := (\<lambda>i. None)(0 \<mapsto> feed_rx)\<rparr>"

definition boot_producer_state :: uart_state where
  "boot_producer_state = snd (smg_uart_set_notify sample_h (boot_state sample_h) 0 (Some feed_rx))"

text \<open>
  Open a port, write each of the given buffers, read up to \<open>sz\<close> bytes into a
  destination that is not null. The result is the bytes reported as written and the
  bytes read; \<open>None\<close> when a write does not return.
\<close>

definition open_write_read ::
  "uart_h \<Rightarrow> allocator \<Rightarrow> uart_state \<Rightarrow> smg_uart_config_t \<Rightarrow> byte list list \<Rightarrow> nat
     \<Rightarrow> (fault + (byte list \<times> byte list)) option" where
  "open_write_read h al st cfg bufs sz =
     (case smg_uart_init_ex h al st cfg of
        Inl e \<Rightarrow> Some (Inl e)
      | Inr (None, st1) \<Rightarrow> Some (Inr ([], []))
      | Inr (Some p, st1) \<Rightarrow>
          (case write_all h st1 p bufs of
             None \<Rightarrow> None
           | Some (Inl e) \<Rightarrow> Some (Inl e)
           | Some (Inr (written, st2)) \<Rightarrow>
               (case smg_uart_read h st2 (Some p) True sz of
                  Inl e \<Rightarrow> Some (Inl e)
                | Inr (bytes, st3) \<Rightarrow> Some (Inr (written, bytes)))))"

section \<open>Properties\<close>

subsection \<open>Faults, pointers and the buffer loops\<close>

lemma and_then_simps [simp]:
  "and_then (Inl e) f = Inl e"
  "and_then (Inr x) f = f x"
  by (simp_all add: and_then_def)

lemma deref_live [simp]: "store st p = Some u \<Longrightarrow> deref st p = Inr u"
  by (simp add: deref_def)

lemma deref_dead [simp]: "store st p = None \<Longrightarrow> deref st p = Inl UseAfterFree"
  by (simp add: deref_def)

lemma load_simps [simp]:
  "load st None = Inr None"
  "store st p = Some u \<Longrightarrow> load st (Some p) = Inr (Some u)"
  by (simp_all add: load_def)

text \<open>The read loop takes the first \<open>n\<close> bytes of the buffer, in order.\<close>

lemma read_loop_eq:
  "read_loop n b = (take n (buf_data b), b\<lparr>buf_data := drop n (buf_data b)\<rparr>)"
proof (induction n arbitrary: b)
  case 0
  then show ?case by simp
next
  case (Suc n)
  show ?case
  proof (cases "buf_data b")
    case Nil
    then show ?thesis by (simp add: isEmpty_def)
  next
    case (Cons c cs)
    then show ?thesis by (simp add: isEmpty_def readChar_def Suc.IH)
  qed
qed

text \<open>The fill loop appends as many bytes as there is room for.\<close>

lemma fill_loop_eq:
  "fill_loop b cs =
     (min (length cs) (getFreeSpace b),
      b\<lparr>buf_data := buf_data b @ take (getFreeSpace b) cs\<rparr>)"
proof (induction cs arbitrary: b)
  case Nil
  then show ?case by simp
next
  case (Cons c cs)
  show ?case
  proof (cases "length (buf_data b) < buf_capacity b")
    case True
    then obtain k where k: "getFreeSpace b = Suc k"
      by (auto simp: getFreeSpace_def dest: less_imp_Suc_add)
    have "getFreeSpace (b\<lparr>buf_data := buf_data b @ [c]\<rparr>) = k"
      using k by (simp add: getFreeSpace_def)
    with True k show ?thesis
      by (simp add: writeChar_def Cons.IH)
  next
    case False
    then show ?thesis by (simp add: writeChar_def getFreeSpace_def)
  qed
qed

lemma clear_if_present:
  "(if c \<and> x \<noteq> None then map_option f x else x) = (if c then map_option f x else x)"
  "(if c \<and> (\<exists>y. x = Some y) then map_option f x else x) = (if c then map_option f x else x)"
  by (cases x; simp)+

lemma buffer_bytes_clear [simp]: "buffer_bytes (map_option clear buffer) = []"
  by (cases buffer) (simp_all add: buffer_bytes_def clear_def)

lemma run_callback_inert:
  assumes "\<forall>cb. callback = Some cb \<longrightarrow> rx_inert cb"
  shows "fst (run_callback callback code (rx, tx)) = rx"
  using assms by (cases callback) (simp_all add: run_callback_def rx_inert_def)

subsection \<open>What each call does to a live port\<close>

lemma notify_live:
  assumes "store st p = Some u" "unat (uart_nr u) < UART_COUNT h"
  shows "notify h st p code =
           Inr (st\<lparr>store := (store st)(p \<mapsto> u
                    \<lparr>rx_buffer := fst (run_callback (notifyCallbacks st (unat (uart_nr u))) code
                                       (rx_buffer u, tx_buffer u)),
                     tx_buffer := snd (run_callback (notifyCallbacks st (unat (uart_nr u))) code
                                       (rx_buffer u, tx_buffer u))\<rparr>),
                  trace := trace st @ [EvNotify (uart_nr u) code]\<rparr>)"
proof (cases "notifyCallbacks st (unat (uart_nr u))")
  case None
  moreover have "(store st)(p \<mapsto> u) = store st"
    using assms(1) by (simp add: fun_upd_idem)
  ultimately show ?thesis
    using assms by (simp add: notify_def array_get_def run_callback_def)
next
  case (Some cb)
  then show ?thesis
    using assms by (simp add: notify_def array_get_def run_callback_def split: prod.split)
qed

lemma flush_live:
  assumes "store st p = Some u"
  shows "smg_uart_flush st (Some p) m =
           Inr (st\<lparr>store := (store st)(p \<mapsto> u
             \<lparr>rx_buffer := (if m \<noteq> UART_TX_ONLY \<and> mode u \<noteq> UART_TX_ONLY
                            then map_option clear (rx_buffer u) else rx_buffer u),
              tx_buffer := (if m \<noteq> UART_RX_ONLY \<and> mode u \<noteq> UART_RX_ONLY
                            then map_option clear (tx_buffer u) else tx_buffer u)\<rparr>)\<rparr>)"
  using assms by (simp add: smg_uart_flush_def Let_def clear_if_present)

lemma setup_hardware_live:
  assumes "store st p = Some u" "uart_nr u = cfg_uart_nr cfg" "unat (cfg_uart_nr cfg) < UART_COUNT h"
  shows "\<exists>st1. setup_hardware h st p cfg = Inr (Some p, st1) \<and>
           store st1 = (store st)(p \<mapsto> u\<lparr>baud_rate := cfg_baudrate cfg,
                  rx_buffer := fst (run_callback (notifyCallbacks st (unat (uart_nr u))) UART_NOTIFY_AFTER_OPEN
                                     (if mode u \<noteq> UART_TX_ONLY then map_option clear (rx_buffer u) else rx_buffer u,
                                      if mode u \<noteq> UART_RX_ONLY then map_option clear (tx_buffer u) else tx_buffer u)),
                  tx_buffer := snd (run_callback (notifyCallbacks st (unat (uart_nr u))) UART_NOTIFY_AFTER_OPEN
                                     (if mode u \<noteq> UART_TX_ONLY then map_option clear (rx_buffer u) else rx_buffer u,
                                      if mode u \<noteq> UART_RX_ONLY then map_option clear (tx_buffer u) else tx_buffer u))\<rparr>) \<and>
           uartInstances st1 = (uartInstances st)(unat (uart_nr u) \<mapsto> p) \<and>
           notifyCallbacks st1 = notifyCallbacks st \<and>
           s_uart_debug_nr st1 = s_uart_debug_nr st \<and>
           live_buffers st1 = live_buffers st \<and>
           isrMask st1 = set_bit (unat (uart_nr u)) (unset_bit (unat (uart_nr u)) (isrMask st)) \<and>
           trace st1 = trace st @ [EvDetach (uart_nr u), EvStartIsr (uart_nr u),
                                    EvNotify (uart_nr u) UART_NOTIFY_AFTER_OPEN]"
  using assms
  by (simp add: setup_hardware_def smg_uart_detach_def smg_uart_set_baudrate_def
      smg_uart_set_baudrate_reg_def smg_uart_set_format_def smg_uart_flush_def Let_def
      array_set_def smg_uart_start_isr_def notify_live clear_if_present bit_unset_bit_iff)

lemmas init_defs =
  smg_uart_init_ex_def smg_uart_get_uart_def array_get_def array_set_def
  smg_uart_rx_enabled_def smg_uart_tx_enabled_def smg_uart_realloc_buffer_def
  delete_uart_def delete_buffer_def Let_def

lemma init_ex_to_setup:
  assumes "\<not> init_fails h al st cfg" "new_uart al = Some p"
  shows "smg_uart_init_ex h al st cfg =
           setup_hardware h
             (st\<lparr>live_buffers := live_buffers st + (if cfg_mode cfg \<noteq> UART_TX_ONLY then 1 else 0)
                                   + (if cfg_mode cfg \<noteq> UART_RX_ONLY then 1 else 0),
                 store := (store st)(p \<mapsto> fresh_port h cfg)\<rparr>) p cfg"
  using assms by (auto simp: init_fails_def init_defs fresh_port_def)

lemma init_ex_failure:
  assumes "init_fails h al st cfg"
  shows "smg_uart_init_ex h al st cfg =
           Inr (None, case new_uart al of
                        None \<Rightarrow> st
                      | Some p \<Rightarrow> if UART_COUNT h \<le> unat (cfg_uart_nr cfg) \<or>
                                      smg_uart_get_uart h st (cfg_uart_nr cfg) \<noteq> Inr None
                                   then st else delete_uart st p)"
  using assms by (auto simp: init_fails_def init_defs split: option.splits)

lemma init_ex_opened:
  assumes "smg_uart_init_ex h al st cfg = Inr (Some p, st1)"
  shows "\<not> init_fails h al st cfg \<and> new_uart al = Some p \<and>
         (\<exists>u. store st1 = (store st)(p \<mapsto> u) \<and>
              u = (fresh_port h cfg)\<lparr>baud_rate := cfg_baudrate cfg,
                    rx_buffer := fst (run_callback (notifyCallbacks st (unat (cfg_uart_nr cfg)))
                                   UART_NOTIFY_AFTER_OPEN
                                   (rx_buffer (fresh_port h cfg), tx_buffer (fresh_port h cfg))),
                    tx_buffer := snd (run_callback (notifyCallbacks st (unat (cfg_uart_nr cfg)))
                                   UART_NOTIFY_AFTER_OPEN
                                   (rx_buffer (fresh_port h cfg), tx_buffer (fresh_port h cfg)))\<rparr>) \<and>
         uartInstances st1 = (uartInstances st)(unat (cfg_uart_nr cfg) \<mapsto> p) \<and>
         notifyCallbacks st1 = notifyCallbacks st \<and>
         s_uart_debug_nr st1 = s_uart_debug_nr st \<and>
         trace st1 = trace st @ [EvDetach (cfg_uart_nr cfg), EvStartIsr (cfg_uart_nr cfg),
                                  EvNotify (cfg_uart_nr cfg) UART_NOTIFY_AFTER_OPEN]"
proof -
  have nf: "\<not> init_fails h al st cfg"
    using assms init_ex_failure [of h al st cfg] by auto
  then obtain q where q: "new_uart al = Some q"
    by (auto simp: init_fails_def)
  let ?st0 = "st\<lparr>live_buffers := live_buffers st + (if cfg_mode cfg \<noteq> UART_TX_ONLY then 1 else 0)
                                   + (if cfg_mode cfg \<noteq> UART_RX_ONLY then 1 else 0),
                 store := (store st)(q \<mapsto> fresh_port h cfg)\<rparr>"
  have live: "store ?st0 q = Some (fresh_port h cfg)"
    by simp
  have nr: "uart_nr (fresh_port h cfg) = cfg_uart_nr cfg"
    by (simp add: fresh_port_def)
  have rng: "unat (cfg_uart_nr cfg) < UART_COUNT h"
    using nf by (simp add: init_fails_def)
  have cleared:
    "(if mode (fresh_port h cfg) \<noteq> UART_TX_ONLY then map_option clear (rx_buffer (fresh_port h cfg))
      else rx_buffer (fresh_port h cfg)) = rx_buffer (fresh_port h cfg)"
    "(if mode (fresh_port h cfg) \<noteq> UART_RX_ONLY then map_option clear (tx_buffer (fresh_port h cfg))
      else tx_buffer (fresh_port h cfg)) = tx_buffer (fresh_port h cfg)"
    by (simp_all add: fresh_port_def clear_def)
  from setup_hardware_live [OF live nr rng] init_ex_to_setup [OF nf q] assms
  show ?thesis
    using nf q by (auto simp: cleared nr)
qed

lemma uninit_live:
  assumes "store st p = Some u" "unat (uart_nr u) < UART_COUNT h"
  shows "\<exists>st1. smg_uart_uninit h st (Some p) = Inr st1 \<and>
           store st1 = (store st)(p := None) \<and>
           uartInstances st1 = uartInstances st \<and>
           notifyCallbacks st1 = notifyCallbacks st \<and>
           s_uart_debug_nr st1 =
             (if uint (uart_nr u) = s_uart_debug_nr st then UART_NO h else s_uart_debug_nr st) \<and>
           isrMask st1 = unset_bit (unat (uart_nr u)) (isrMask st) \<and>
           trace st1 = trace st @ [EvNotify (uart_nr u) UART_NOTIFY_BEFORE_CLOSE, EvStopIsr (uart_nr u)]"
  using assms
  by (simp add: smg_uart_uninit_def notify_live smg_uart_stop_isr_def smg_uart_set_debug_def
      delete_buffer_def delete_uart_def Let_def split: option.split)

subsection \<open>Opening: success and failure\<close>

lemmas sample_defs = sample_h_def boot_state_def sample_cfg_def sample_alloc_def
  sample_port_def sample_state_def

lemma sample_state_live:
  "store sample_state 1 = Some sample_port" "unat (uart_nr sample_port) < UART_COUNT sample_h"
  by (simp_all add: sample_defs)

lemma delete_uart_fresh: "store st p = None \<Longrightarrow> delete_uart st p = st"
proof -
  assume "store st p = None"
  then have "(store st)(p := None) = store st"
    by (simp add: fun_upd_idem)
  then show ?thesis
    by (simp add: delete_uart_def)
qed

lemma init_ex_succeeds:
  assumes nf: "\<not> init_fails h al st cfg"
  shows "\<exists>p st1. new_uart al = Some p \<and> smg_uart_init_ex h al st cfg = Inr (Some p, st1)"
proof -
  from nf obtain q where q: "new_uart al = Some q"
    by (auto simp: init_fails_def)
  let ?st0 = "st\<lparr>live_buffers := live_buffers st + (if cfg_mode cfg \<noteq> UART_TX_ONLY then 1 else 0)
                                 + (if cfg_mode cfg \<noteq> UART_RX_ONLY then 1 else 0),
                 store := (store st)(q \<mapsto> fresh_port h cfg)\<rparr>"
  have live: "store ?st0 q = Some (fresh_port h cfg)"
    by simp
  have nr: "uart_nr (fresh_port h cfg) = cfg_uart_nr cfg"
    by (simp add: fresh_port_def)
  have rng: "unat (cfg_uart_nr cfg) < UART_COUNT h"
    using nf by (simp add: init_fails_def)
  from setup_hardware_live [OF live nr rng] obtain st1 where
    "setup_hardware h ?st0 q cfg = Inr (Some q, st1)"
    by blast
  then have "smg_uart_init_ex h al st cfg = Inr (Some q, st1)"
    by (simp add: init_ex_to_setup [OF nf q])
  with q show ?thesis
    by blast
qed

lemma sample_open:
  "\<exists>st1. smg_uart_init_ex sample_h sample_alloc (boot_state sample_h) sample_cfg = Inr (Some 1, st1)"
proof -
  have "\<not> init_fails sample_h sample_alloc (boot_state sample_h) sample_cfg"
    by (simp add: init_fails_def sample_defs smg_uart_get_uart_def array_get_def)
  from init_ex_succeeds [OF this] show ?thesis
    by (simp add: sample_alloc_def)
qed

subsection \<open>Writing\<close>

lemma write_pass_live:
  assumes "store st p = Some u" "unat (uart_nr u) < UART_COUNT h"
  shows "write_pass h st p buf written =
           Inr (written + min (length buf - written) (tx_space u),
                st\<lparr>store := (store st)(p \<mapsto> u
                      \<lparr>rx_buffer := fst (run_callback (notifyCallbacks st (unat (uart_nr u))) UART_NOTIFY_AFTER_WRITE
                                          (rx_buffer u, enqueue (tx_buffer u) (drop written buf))),
                       tx_buffer := snd (run_callback (notifyCallbacks st (unat (uart_nr u))) UART_NOTIFY_AFTER_WRITE
                                          (rx_buffer u, enqueue (tx_buffer u) (drop written buf)))\<rparr>),
                   trace := trace st @ [EvNotify (uart_nr u) UART_NOTIFY_AFTER_WRITE]\<rparr>,
                bit (options u) (UART_OPT_TXWAIT h))"
proof (cases "tx_buffer u")
  case None
  then show ?thesis
    using assms by (simp add: write_pass_def notify_live tx_space_def enqueue_def)
next
  case (Some b)
  then show ?thesis
    using assms by (simp add: write_pass_def fill_loop_eq notify_live tx_space_def enqueue_def)
qed

lemma write_loop_done:
  "length buf \<le> written \<Longrightarrow> write_loop h p buf written st = Some (Inr (written, st))"
  by (simp add: write_loop.simps)

lemma write_loop_step:
  assumes "written < length buf" "write_pass h st p buf written = Inr (written1, st1, wait)"
  shows "write_loop h p buf written st =
           (if wait then write_loop h p buf written1 st1 else Some (Inr (written1, st1)))"
  using assms by (simp add: write_loop.simps [of h p buf written st])

lemma smg_uart_write_live:
  assumes "store st p = Some u" "mode u \<noteq> UART_RX_ONLY" "buf \<noteq> []"
  shows "smg_uart_write h st (Some p) (Some buf) = write_loop h p buf 0 st"
  using assms by (simp add: smg_uart_write_def smg_uart_tx_enabled_def)

lemma write_nowait:
  assumes "store st p = Some u" "unat (uart_nr u) < UART_COUNT h" "mode u \<noteq> UART_RX_ONLY"
    "buf \<noteq> []" "\<not> bit (options u) (UART_OPT_TXWAIT h)"
  shows "smg_uart_write h st (Some p) (Some buf) =
           Some (Inr (min (length buf) (tx_space u),
                      st\<lparr>store := (store st)(p \<mapsto> u
                            \<lparr>rx_buffer := fst (run_callback (notifyCallbacks st (unat (uart_nr u)))
                                                UART_NOTIFY_AFTER_WRITE (rx_buffer u, enqueue (tx_buffer u) buf)),
                             tx_buffer := snd (run_callback (notifyCallbacks st (unat (uart_nr u)))
                                                UART_NOTIFY_AFTER_WRITE (rx_buffer u, enqueue (tx_buffer u) buf))\<rparr>),
                         trace := trace st @ [EvNotify (uart_nr u) UART_NOTIFY_AFTER_WRITE]\<rparr>))"
proof -
  have "0 < length buf"
    using assms(4) by simp
  from write_loop_step [OF this write_pass_live [OF assms(1,2)]] assms(5)
  show ?thesis
    by (simp add: smg_uart_write_live [OF assms(1,3,4)])
qed

lemma write_loop_wait:
  assumes coop: "cooperating_consumer cb"
  shows "\<lbrakk>store st p = Some u; unat (uart_nr u) < UART_COUNT h;
          bit (options u) (UART_OPT_TXWAIT h);
          notifyCallbacks st (unat (uart_nr u)) = Some cb;
          tx_buffer u = Some b; 0 < buf_capacity b; written < length buf\<rbrakk>
         \<Longrightarrow> \<exists>st1 k. write_loop h p buf written st = Some (Inr (length buf, st1)) \<and> 0 < k \<and>
               trace st1 = trace st @ replicate k (EvNotify (uart_nr u) UART_NOTIFY_AFTER_WRITE)"
proof (induction "2 * (length buf - written) + (if tx_space u = 0 then 1 else 0)"
    arbitrary: st u b written rule: less_induct)
  case less
  let ?ev = "EvNotify (uart_nr u) UART_NOTIFY_AFTER_WRITE"
  let ?n = "min (length buf - written) (tx_space u)"
  let ?filled = "b\<lparr>buf_data := buf_data b @ take (getFreeSpace b) (drop written buf)\<rparr>"
  have "0 < buf_capacity ?filled"
    using less.prems(6) by simp
  then obtain rx1 b1 where cb: "cb UART_NOTIFY_AFTER_WRITE (rx_buffer u, Some ?filled) = (rx1, Some b1)"
    and room: "0 < getFreeSpace b1"
    using coop unfolding cooperating_consumer_def by blast
  let ?u1 = "u\<lparr>rx_buffer := rx1, tx_buffer := Some b1\<rparr>"
  let ?st1 = "st\<lparr>store := (store st)(p \<mapsto> ?u1), trace := trace st @ [?ev]\<rparr>"
  have pass: "write_pass h st p buf written = Inr (written + ?n, ?st1, True)"
    using write_pass_live [OF less.prems(1,2), of buf written] less.prems(3,4,5) cb
    by (simp add: run_callback_def enqueue_def)
  have step: "write_loop h p buf written st = write_loop h p buf (written + ?n) ?st1"
    using write_loop_step [OF less.prems(7) pass] by simp
  show ?case
  proof (cases "written + ?n < length buf")
    case False
    then have "written + ?n = length buf"
      using less.prems(7) by auto
    then have "write_loop h p buf written st = Some (Inr (length buf, ?st1))"
      using step by (simp add: write_loop_done)
    moreover have "trace ?st1 = trace st @ replicate 1 ?ev"
      by simp
    ultimately show ?thesis
      by (metis zero_less_one)
  next
    case True
    have space1: "0 < tx_space ?u1"
      using room by (simp add: tx_space_def)
    have "\<exists>st2 k. write_loop h p buf (written + ?n) ?st1 = Some (Inr (length buf, st2)) \<and> 0 < k \<and>
            trace st2 = trace ?st1 @ replicate k (EvNotify (uart_nr ?u1) UART_NOTIFY_AFTER_WRITE)"
    proof (rule less.hyps)
      show "2 * (length buf - (written + ?n)) + (if tx_space ?u1 = 0 then 1 else 0)
              < 2 * (length buf - written) + (if tx_space u = 0 then 1 else 0)"
        using space1 less.prems(7) True by (auto simp: min_def split: if_splits)
      show "store ?st1 p = Some ?u1" by simp
      show "unat (uart_nr ?u1) < UART_COUNT h" using less.prems(2) by simp
      show "bit (options ?u1) (UART_OPT_TXWAIT h)" using less.prems(3) by simp
      show "notifyCallbacks ?st1 (unat (uart_nr ?u1)) = Some cb" using less.prems(4) by simp
      show "tx_buffer ?u1 = Some b1" by simp
      show "0 < buf_capacity b1" using room by (simp add: getFreeSpace_def)
      show "written + ?n < length buf" by (rule True)
    qed
    then obtain st2 k where
      r: "write_loop h p buf (written + ?n) ?st1 = Some (Inr (length buf, st2))"
      and t: "trace st2 = trace ?st1 @ replicate k ?ev"
      by auto
    have "trace st2 = trace st @ replicate (Suc k) ?ev"
      using t by simp
    with r step show ?thesis
      by (metis zero_less_Suc)
  qed
qed

lemma tx_free_live:
  assumes "store st p = Some u" "mode u \<noteq> UART_RX_ONLY"
  shows "smg_uart_tx_free st (Some p) = Inr (tx_space u)"
  using assms by (simp add: smg_uart_tx_free_def smg_uart_tx_enabled_def tx_space_def)

lemma drain_tx_cooperates: "cooperating_consumer drain_tx"
  by (simp add: cooperating_consumer_def drain_tx_def clear_def getFreeSpace_def)

subsection \<open>Writes leave the RX buffer alone\<close>

text \<open>
  \<open>smg_uart_write\<close> works on the TX buffer only. With a callback that does not
  produce received data, whatever a write returns, the port's RX buffer is what it
  was. The loop may run any number of passes, so this is shown for every result the
  loop can return.
\<close>

lemma write_pass_quiet:
  assumes "rx_quiet h st p u"
  shows "\<exists>written1 st1 wait u1. write_pass h st p buf written = Inr (written1, st1, wait) \<and>
           rx_quiet h st1 p u1 \<and> rx_buffer u1 = rx_buffer u \<and> uart_nr u1 = uart_nr u \<and>
           mode u1 = mode u \<and> notifyCallbacks st1 = notifyCallbacks st"
  using assms write_pass_live [of st p u h buf written]
  by (simp add: rx_quiet_def run_callback_inert)

lemma write_loop_quiet:
  assumes ret: "write_loop h p buf written st = Some (Inr (n, st1))" and quiet: "rx_quiet h st p u"
  shows "\<exists>u1. rx_quiet h st1 p u1 \<and> rx_buffer u1 = rx_buffer u \<and> uart_nr u1 = uart_nr u \<and>
              mode u1 = mode u \<and> notifyCallbacks st1 = notifyCallbacks st"
proof -
  define P where "P = (\<lambda>h p (buf :: byte list) (written :: nat) st (r :: fault + (nat \<times> uart_state)).
      \<forall>u n st1. rx_quiet h st p u \<longrightarrow> r = Inr (n, st1) \<longrightarrow>
        (\<exists>u1. rx_quiet h st1 p u1 \<and> rx_buffer u1 = rx_buffer u \<and> uart_nr u1 = uart_nr u \<and>
              mode u1 = mode u \<and> notifyCallbacks st1 = notifyCallbacks st))"
  have "P h p buf written st (Inr (n, st1))"
  proof (rule write_loop.raw_induct [where P = P, OF _ ret])
    fix loop h p buf written st r
    assume IH: "\<And>h p buf written st r. loop h p buf written st = Some r \<Longrightarrow> P h p buf written st r"
      and body: "(if written < length buf
                  then case write_pass h st p buf written of
                         Inl e \<Rightarrow> Some (Inl e)
                       | Inr (written1, st1, wait) \<Rightarrow>
                           if \<not> wait then Some (Inr (written1, st1))
                           else loop h p buf written1 st1
                  else Some (Inr (written, st))) = Some r"
    show "P h p buf written st r"
      unfolding P_def
    proof (intro allI impI)
      fix u n st1
      assume q: "rx_quiet h st p u" and r: "r = Inr (n, st1)"
      show "\<exists>u1. rx_quiet h st1 p u1 \<and> rx_buffer u1 = rx_buffer u \<and> uart_nr u1 = uart_nr u \<and>
                 mode u1 = mode u \<and> notifyCallbacks st1 = notifyCallbacks st"
      proof (cases "written < length buf")
        case False
        with body q r show ?thesis by auto
      next
        case True
        obtain written1 st2 wait u2 where
          pass: "write_pass h st p buf written = Inr (written1, st2, wait)"
          and q2: "rx_quiet h st2 p u2" "rx_buffer u2 = rx_buffer u" "uart_nr u2 = uart_nr u"
            "mode u2 = mode u" "notifyCallbacks st2 = notifyCallbacks st"
          using write_pass_quiet [OF q] by blast
        show ?thesis
        proof (cases wait)
          case False
          with True pass body r q2 show ?thesis by auto
        next
          case wait: True
          with True pass body have "loop h p buf written1 st2 = Some r" by simp
          from IH [OF this] q2(1) r obtain u1 where
            "rx_quiet h st1 p u1" "rx_buffer u1 = rx_buffer u2" "uart_nr u1 = uart_nr u2"
            "mode u1 = mode u2" "notifyCallbacks st1 = notifyCallbacks st2"
            unfolding P_def by blast
          with q2 show ?thesis by auto
        qed
      qed
    qed
  qed
  with quiet show ?thesis
    unfolding P_def by blast
qed

lemma smg_uart_write_quiet:
  assumes "smg_uart_write h st (Some p) buffer = Some (Inr (n, st1))" "rx_quiet h st p u"
  shows "\<exists>u1. rx_quiet h st1 p u1 \<and> rx_buffer u1 = rx_buffer u \<and> uart_nr u1 = uart_nr u \<and>
              mode u1 = mode u \<and> notifyCallbacks st1 = notifyCallbacks st"
proof -
  have live: "store st p = Some u"
    using assms(2) by (simp add: rx_quiet_def)
  show ?thesis
  proof (cases "smg_uart_tx_enabled (Some u) \<and> buffer \<noteq> None \<and> buffer \<noteq> Some []")
    case True
    then obtain buf where "buffer = Some buf" "buf \<noteq> []"
      by auto
    with True assms(1) live have "write_loop h p buf 0 st = Some (Inr (n, st1))"
      by (simp add: smg_uart_write_def)
    from write_loop_quiet [OF this assms(2)] show ?thesis .
  next
    case False
    with assms(1) live have "st1 = st"
      by (auto simp: smg_uart_write_def split: option.splits if_splits)
    with assms(2) show ?thesis by auto
  qed
qed

lemma write_all_quiet:
  "write_all h st p bufs = Some (Inr (acc, st1)) \<Longrightarrow> rx_quiet h st p u \<Longrightarrow>
     \<exists>u1. rx_quiet h st1 p u1 \<and> rx_buffer u1 = rx_buffer u \<and> uart_nr u1 = uart_nr u \<and>
          mode u1 = mode u \<and> notifyCallbacks st1 = notifyCallbacks st"
proof (induction bufs arbitrary: st u acc)
  case Nil
  then show ?case by auto
next
  case (Cons buf bufs)
  from Cons.prems(1) obtain n st2 acc2 where
    w: "smg_uart_write h st (Some p) (Some buf) = Some (Inr (n, st2))"
    and rest: "write_all h st2 p bufs = Some (Inr (acc2, st1))"
    by (auto split: option.splits sum.splits)
  from smg_uart_write_quiet [OF w Cons.prems(2)] obtain u2 where
    q2: "rx_quiet h st2 p u2" "rx_buffer u2 = rx_buffer u" "uart_nr u2 = uart_nr u"
      "mode u2 = mode u" "notifyCallbacks st2 = notifyCallbacks st"
    by blast
  from Cons.IH [OF rest q2(1)] q2 show ?case by auto
qed

lemma smg_uart_read_quiet:
  assumes "rx_quiet h st p u"
  shows "\<exists>st1. smg_uart_read h st (Some p) buffer sz =
                 Inr (if mode u \<noteq> UART_TX_ONLY \<and> buffer then take sz (buffer_bytes (rx_buffer u)) else [], st1)"
  using assms
  by (auto simp: rx_quiet_def smg_uart_read_def smg_uart_rx_enabled_def
      notify_live run_callback_inert read_loop_eq buffer_bytes_def
      split: option.splits)

lemma smg_uart_rx_available_live:
  assumes "store st p = Some u"
  shows "smg_uart_rx_available st (Some p) =
           Inr (if mode u \<noteq> UART_TX_ONLY then length (buffer_bytes (rx_buffer u)) else 0)"
  using assms
  by (auto simp: smg_uart_rx_available_def smg_uart_rx_enabled_def buffer_bytes_def available_def
      split: option.splits)

lemma opened_quiet:
  assumes op: "smg_uart_init_ex h al st cfg = Inr (Some p, st1)"
    and inert: "\<forall>cb. notifyCallbacks st (unat (cfg_uart_nr cfg)) = Some cb \<longrightarrow> rx_inert cb"
  shows "\<exists>u. rx_quiet h st1 p u \<and> buffer_bytes (rx_buffer u) = []"
proof -
  from init_ex_opened [OF op] obtain u where
    nf: "\<not> init_fails h al st cfg"
    and u: "store st1 = (store st)(p \<mapsto> u)"
      "u = (fresh_port h cfg)\<lparr>baud_rate := cfg_baudrate cfg,
             rx_buffer := fst (run_callback (notifyCallbacks st (unat (cfg_uart_nr cfg)))
                            UART_NOTIFY_AFTER_OPEN
                            (rx_buffer (fresh_port h cfg), tx_buffer (fresh_port h cfg))),
             tx_buffer := snd (run_callback (notifyCallbacks st (unat (cfg_uart_nr cfg)))
                            UART_NOTIFY_AFTER_OPEN
                            (rx_buffer (fresh_port h cfg), tx_buffer (fresh_port h cfg)))\<rparr>"
    and cbs: "notifyCallbacks st1 = notifyCallbacks st"
    by blast
  have rx: "rx_buffer u = rx_buffer (fresh_port h cfg)"
    using u(2) by (simp add: run_callback_inert [OF inert])
  have nr: "uart_nr u = cfg_uart_nr cfg"
    using u(2) by (simp add: fresh_port_def)
  have "rx_quiet h st1 p u"
    using u(1) nr nf cbs inert by (simp add: rx_quiet_def init_fails_def)
  moreover have "buffer_bytes (rx_buffer u) = []"
    using rx by (simp add: fresh_port_def buffer_bytes_def)
  ultimately show ?thesis by blast
qed

subsection \<open>The passes of a waiting write\<close>

lemma write_pass_state:
  assumes "store st p = Some u" "unat (uart_nr u) < UART_COUNT h"
  shows "write_pass h st p buf written =
           Inr (written + length (take (tx_space u) (drop written buf)),
                pass_state st p u (drop written buf), bit (options u) (UART_OPT_TXWAIT h))"
  using write_pass_live [OF assms, of buf written]
  by (simp add: pass_state_def min.commute)

lemma pass_state_port:
  assumes "store st p = Some u"
  shows "\<exists>u1. store (pass_state st p u rest) p = Some u1 \<and> uart_nr u1 = uart_nr u \<and>
              options u1 = options u \<and> mode u1 = mode u"
    and "notifyCallbacks (pass_state st p u rest) = notifyCallbacks st"
    and "trace (pass_state st p u rest) = trace st @ [EvNotify (uart_nr u) UART_NOTIFY_AFTER_WRITE]"
  by (simp_all add: pass_state_def)

text \<open>What a series of passes adds up to: the chunks are the rest of the buffer, in
  order, and each pass has logged one notification.\<close>

lemma wait_passes_sum:
  assumes "wait_passes p buf written st chunks st1"
  shows "\<And>u. store st p = Some u \<Longrightarrow>
           concat chunks = drop written buf \<and> chunks \<noteq> [] \<and>
           trace st1 = trace st @ replicate (length chunks) (EvNotify (uart_nr u) UART_NOTIFY_AFTER_WRITE)"
  using assms
proof (induction rule: wait_passes.induct)
  case (last_pass st u0 chunk written)
  then have "u0 = u" by simp
  moreover have "length (drop written buf) = length chunk"
    using last_pass.hyps(3) by simp
  then have "chunk = drop written buf"
    using last_pass.hyps(2) by (metis append_eq_conv_conj append_take_drop_id length_drop take_all_iff order_refl)
  ultimately show ?case
    by (simp add: pass_state_def)
next
  case (next_pass st u0 chunk written chunks st1)
  then have u: "u0 = u" by simp
  obtain u1 where u1: "store (pass_state st p u0 (drop written buf)) p = Some u1" "uart_nr u1 = uart_nr u0"
    using pass_state_port(1) [OF next_pass.hyps(1)] by blast
  from next_pass.IH [OF u1(1)] have
    ih: "concat chunks = drop (written + length chunk) buf" "chunks \<noteq> []"
      "trace st1 = trace (pass_state st p u0 (drop written buf)) @
         replicate (length chunks) (EvNotify (uart_nr u1) UART_NOTIFY_AFTER_WRITE)"
    by auto
  have "chunk @ drop (written + length chunk) buf = drop written buf"
    using next_pass.hyps(2) by (metis add.commute append_take_drop_id drop_drop length_take min.absorb2
        nat_le_linear take_all)
  with ih u u1 show ?case
    by (simp add: pass_state_def replicate_append_same)
qed

text \<open>The passes are determined by the state the write starts in.\<close>

lemma wait_passes_unique:
  assumes "wait_passes p buf written st chunks st1" "wait_passes p buf written st chunks2 st2"
  shows "chunks2 = chunks \<and> st2 = st1"
  using assms
proof (induction arbitrary: chunks2 st2 rule: wait_passes.induct)
  case (last_pass st u chunk written)
  from last_pass.prems show ?case
  proof (cases rule: wait_passes.cases)
    case (last_pass u2 chunk2)
    with last_pass.hyps show ?thesis
      by simp
  next
    case (next_pass u2 chunk2 chunks3)
    with last_pass.hyps show ?thesis
      by simp
  qed
next
  case (next_pass st u chunk written chunks st1)
  from next_pass.prems show ?case
  proof (cases rule: wait_passes.cases)
    case (last_pass u2 chunk2)
    with next_pass.hyps show ?thesis
      by simp
  next
    case inner: (next_pass u2 chunk2 chunks3)
    from inner(2) next_pass.hyps(1) have "u2 = u"
      by simp
    with inner(3) next_pass.hyps(2) have "chunk2 = chunk"
      by simp
    with inner(5) \<open>u2 = u\<close> have "wait_passes p buf (written + length chunk)
        (pass_state st p u (drop written buf)) chunks3 st2"
      by simp
    from next_pass.IH [OF this] inner(1) \<open>chunk2 = chunk\<close> show ?thesis
      by simp
  qed
qed

text \<open>Whatever the waiting loop returns, it returns the full length, after a series
  of passes as the specification describes them.\<close>

lemma write_loop_waits:
  assumes ret: "write_loop h p buf written st = Some (Inr (n, st1))"
    and live: "store st p = Some u" "unat (uart_nr u) < UART_COUNT h"
      "bit (options u) (UART_OPT_TXWAIT h)"
    and more: "written < length buf"
  shows "n = length buf \<and> (\<exists>chunks. wait_passes p buf written st chunks st1)"
proof -
  define P where "P = (\<lambda>(h :: uart_h) p (buf :: byte list) (written :: nat) st
                          (r :: fault + (nat \<times> uart_state)).
      \<forall>u n st1. store st p = Some u \<longrightarrow> unat (uart_nr u) < UART_COUNT h \<longrightarrow>
        bit (options u) (UART_OPT_TXWAIT h) \<longrightarrow> r = Inr (n, st1) \<longrightarrow>
          (length buf \<le> written \<longrightarrow> n = written \<and> st1 = st) \<and>
          (written < length buf \<longrightarrow>
             n = length buf \<and> (\<exists>chunks. wait_passes p buf written st chunks st1)))"
  have "P h p buf written st (Inr (n, st1))"
  proof (rule write_loop.raw_induct [where P = P, OF _ ret])
    fix loop h p buf written st r
    assume IH: "\<And>h p buf written st r. loop h p buf written st = Some r \<Longrightarrow> P h p buf written st r"
      and body: "(if written < length buf
                  then case write_pass h st p buf written of
                         Inl e \<Rightarrow> Some (Inl e)
                       | Inr (written1, st1, wait) \<Rightarrow>
                           if \<not> wait then Some (Inr (written1, st1))
                           else loop h p buf written1 st1
                  else Some (Inr (written, st))) = Some r"
    show "P h p buf written st r"
      unfolding P_def
    proof (intro allI impI)
      fix u n st1
      assume live: "store st p = Some u" "unat (uart_nr u) < UART_COUNT h"
          "bit (options u) (UART_OPT_TXWAIT h)"
        and r: "r = Inr (n, st1)"
      let ?chunk = "take (tx_space u) (drop written buf)"
      let ?st2 = "pass_state st p u (drop written buf)"
      show "(length buf \<le> written \<longrightarrow> n = written \<and> st1 = st) \<and>
            (written < length buf \<longrightarrow>
               n = length buf \<and> (\<exists>chunks. wait_passes p buf written st chunks st1))"
      proof (cases "written < length buf")
        case False
        with body r show ?thesis by auto
      next
        case True
        have pass: "write_pass h st p buf written = Inr (written + length ?chunk, ?st2, True)"
          using write_pass_state [OF live(1,2), of buf written] live(3) by simp
        with True body have next_call: "loop h p buf (written + length ?chunk) ?st2 = Some r"
          by simp
        obtain u2 where u2: "store ?st2 p = Some u2" "uart_nr u2 = uart_nr u" "options u2 = options u"
          using pass_state_port(1) [OF live(1)] by blast
        have ih: "(length buf \<le> written + length ?chunk \<longrightarrow> n = written + length ?chunk \<and> st1 = ?st2) \<and>
                  (written + length ?chunk < length buf \<longrightarrow>
                     n = length buf \<and>
                     (\<exists>chunks. wait_passes p buf (written + length ?chunk) ?st2 chunks st1))"
          using IH [OF next_call] u2 live(2,3) r unfolding P_def by simp
        have le: "written + length ?chunk \<le> length buf"
          using True by simp
        show ?thesis
        proof (cases "written + length ?chunk < length buf")
          case False
          with le have eq: "written + length ?chunk = length buf" by simp
          with ih have "n = length buf" "st1 = ?st2" by simp_all
          moreover have "wait_passes p buf written st [?chunk] ?st2"
            by (rule wait_passes.last_pass [OF live(1) refl eq])
          ultimately show ?thesis using True by auto
        next
          case less: True
          with ih obtain chunks where
            "n = length buf" "wait_passes p buf (written + length ?chunk) ?st2 chunks st1"
            by blast
          moreover from wait_passes.next_pass [OF live(1) refl less this(2)]
          have "wait_passes p buf written st (?chunk # chunks) st1" .
          ultimately show ?thesis using True by auto
        qed
      qed
    qed
  qed
  with live more show ?thesis
    unfolding P_def by blast
qed

text \<open>Three bytes written to the full TX buffer of the sample port with the wait
  option set and the draining consumer registered: three passes.\<close>

lemma sample_wait_run:
  defines "final \<equiv> sample_wait_state
      \<lparr>store := (\<lambda>p. None)(1 \<mapsto> sample_port
          \<lparr>options := 1, tx_buffer := Some \<lparr>buf_capacity = 2, buf_data = []\<rparr>\<rparr>),
       trace := [EvNotify 0 UART_NOTIFY_AFTER_WRITE, EvNotify 0 UART_NOTIFY_AFTER_WRITE,
                 EvNotify 0 UART_NOTIFY_AFTER_WRITE]\<rparr>"
  shows "wait_passes 1 [5, 6, 7] 0 sample_wait_state [[], [5, 6], [7]] final"
    and "smg_uart_write sample_h sample_wait_state (Some 1) (Some [5, 6, 7]) = Some (Inr (3, final))"
proof -
  let ?buf = "[5, 6, 7] :: byte list"
  let ?ev = "EvNotify 0 UART_NOTIFY_AFTER_WRITE"
  let ?u0 = "sample_port\<lparr>options := 1\<rparr>"
  let ?u1 = "sample_port\<lparr>options := 1, tx_buffer := Some \<lparr>buf_capacity = 2, buf_data = []\<rparr>\<rparr>"
  let ?s1 = "sample_wait_state\<lparr>store := (\<lambda>p. None)(1 \<mapsto> ?u1), trace := [?ev]\<rparr>"
  let ?s2 = "sample_wait_state\<lparr>store := (\<lambda>p. None)(1 \<mapsto> ?u1), trace := [?ev, ?ev]\<rparr>"
  have live: "store sample_wait_state 1 = Some ?u0" "store ?s1 1 = Some ?u1" "store ?s2 1 = Some ?u1"
    by (simp_all add: sample_wait_state_def)
  have space: "tx_space ?u0 = 0" "tx_space ?u1 = 2"
    by (simp_all add: sample_port_def tx_space_def getFreeSpace_def)
  have p1: "pass_state sample_wait_state 1 ?u0 (drop 0 ?buf) = ?s1"
    by (simp add: pass_state_def sample_wait_state_def sample_port_def run_callback_def drain_tx_def
        enqueue_def clear_def getFreeSpace_def)
  have p2: "pass_state ?s1 1 ?u1 (drop 0 ?buf) = ?s2"
    by (simp add: pass_state_def sample_wait_state_def sample_port_def run_callback_def drain_tx_def
        enqueue_def clear_def getFreeSpace_def)
  have p3: "pass_state ?s2 1 ?u1 (drop 2 ?buf) = final"
    by (simp add: final_def pass_state_def sample_wait_state_def sample_port_def run_callback_def
        drain_tx_def enqueue_def clear_def getFreeSpace_def)
  have c3: "wait_passes 1 ?buf 2 ?s2 [[7]] final"
    using wait_passes.last_pass [OF live(3), of "[7]" 2 ?buf] space(2) p3 by simp
  have c2: "wait_passes 1 ?buf 0 ?s1 [[5, 6], [7]] final"
    using wait_passes.next_pass [OF live(2), of "[5, 6]" 0 ?buf "[[7]]" final] space(2) p2 c3
    by (simp add: numeral_2_eq_2)
  show "wait_passes 1 ?buf 0 sample_wait_state [[], [5, 6], [7]] final"
    using wait_passes.next_pass [OF live(1), of "[]" 0 ?buf "[[5, 6], [7]]" final] space(1) p1 c2 by simp
  have rng: "unat (uart_nr ?u0) < UART_COUNT sample_h" "unat (uart_nr ?u1) < UART_COUNT sample_h"
    and wait: "bit (options ?u0) (UART_OPT_TXWAIT sample_h)" "bit (options ?u1) (UART_OPT_TXWAIT sample_h)"
    by (simp_all add: sample_port_def sample_h_def)
  have w1: "write_pass sample_h sample_wait_state 1 ?buf 0 = Inr (0, ?s1, True)"
    using write_pass_state [OF live(1) rng(1), of ?buf 0] space(1) p1 wait(1) by simp
  have w2: "write_pass sample_h ?s1 1 ?buf 0 = Inr (2, ?s2, True)"
    using write_pass_state [OF live(2) rng(2), of ?buf 0] space(2) p2 wait(2) by simp
  have w3: "write_pass sample_h ?s2 1 ?buf 2 = Inr (3, final, True)"
    using write_pass_state [OF live(3) rng(2), of ?buf 2] space(2) p3 wait(2) by simp
  have "write_loop sample_h 1 ?buf 0 sample_wait_state = Some (Inr (3, final))"
    using write_loop_step [OF _ w1] write_loop_step [OF _ w2] write_loop_step [OF _ w3]
      write_loop_done [of ?buf 3 sample_h 1 final]
    by simp
  then show "smg_uart_write sample_h sample_wait_state (Some 1) (Some ?buf) = Some (Inr (3, final))"
    using smg_uart_write_live [OF live(1), of ?buf sample_h] by (simp add: sample_port_def)
qed

subsection \<open>Reading behind a callback\<close>

lemma port_update_order:
  "(u :: smg_uart_t)\<lparr>tx_buffer := a, rx_buffer := b\<rparr> = u\<lparr>rx_buffer := b, tx_buffer := a\<rparr>"
  by (cases u) simp

lemma state_update_order:
  "(st :: uart_state)\<lparr>trace := t, store := s\<rparr> = st\<lparr>store := s, trace := t\<rparr>"
  by (cases st) simp

text \<open>A read of a live port with RX enabled: the callback works on the buffers first,
  then the oldest bytes are taken from what it has left in the RX buffer.\<close>

lemma read_live:
  assumes live: "store st p = Some u" "unat (uart_nr u) < UART_COUNT h"
    and cb: "run_callback (notifyCallbacks st (unat (uart_nr u))) UART_NOTIFY_BEFORE_READ
               (rx_buffer u, tx_buffer u) = (rx1, tx1)"
    and en: "mode u \<noteq> UART_TX_ONLY" "buffer" "0 < sz"
  shows "smg_uart_read h st (Some p) buffer sz =
           Inr (take sz (buffer_bytes rx1),
                st\<lparr>store := (store st)(p \<mapsto> u
                      \<lparr>rx_buffer := map_option (\<lambda>b. b\<lparr>buf_data := drop sz (buf_data b)\<rparr>) rx1,
                       tx_buffer := tx1\<rparr>),
                   trace := trace st @ [EvNotify (uart_nr u) UART_NOTIFY_BEFORE_READ]\<rparr>)"
proof (cases rx1)
  case None
  then show ?thesis
    using live cb en
    by (simp add: smg_uart_read_def smg_uart_rx_enabled_def notify_live buffer_bytes_def)
next
  case (Some b)
  then show ?thesis
    using live cb en
    by (simp add: smg_uart_read_def smg_uart_rx_enabled_def notify_live buffer_bytes_def read_loop_eq
        port_update_order state_update_order)
qed

text \<open>The producer at work: on the sample port, and on port 0 opened after the
  producer has been registered for it.\<close>

lemma sample_producer_live:
  "store sample_producer_state 1 = Some sample_port"
  "notifyCallbacks sample_producer_state (unat (uart_nr sample_port)) = Some feed_rx"
  "run_callback (Some feed_rx) UART_NOTIFY_BEFORE_READ (rx_buffer sample_port, tx_buffer sample_port) =
     (Some \<lparr>buf_capacity = 4, buf_data = [1, 2, 7]\<rparr>, tx_buffer sample_port)"
  by (simp_all add: sample_producer_state_def sample_defs run_callback_def feed_rx_def writeChar_def)

lemma sample_producer_read:
  "\<exists>st1. smg_uart_read sample_h sample_producer_state (Some 1) True 3 = Inr ([1, 2, 7], st1)"
proof -
  have cb: "run_callback (notifyCallbacks sample_producer_state (unat (uart_nr sample_port)))
              UART_NOTIFY_BEFORE_READ (rx_buffer sample_port, tx_buffer sample_port) =
            (Some \<lparr>buf_capacity = 4, buf_data = [1, 2, 7]\<rparr>, tx_buffer sample_port)"
    by (simp add: sample_producer_live)
  have "mode sample_port \<noteq> UART_TX_ONLY"
    by (simp add: sample_port_def)
  from read_live [OF sample_producer_live(1) sample_state_live(2) cb this, of True 3]
  show ?thesis
    by (simp add: buffer_bytes_def)
qed

lemma boot_producer_run:
  "open_write_read sample_h sample_alloc boot_producer_state sample_cfg [[65, 66, 67]] 3 =
     Some (Inr ([65, 66, 67], [7]))"
proof -
  have cbs: "notifyCallbacks boot_producer_state = (\<lambda>i. None)(0 \<mapsto> feed_rx)"
    "store boot_producer_state = (\<lambda>p. None)"
    by (simp_all add: boot_producer_state_def smg_uart_set_notify_def sample_defs)
  have "\<not> init_fails sample_h sample_alloc boot_producer_state sample_cfg"
    by (simp add: init_fails_def boot_producer_state_def smg_uart_set_notify_def sample_defs
        smg_uart_get_uart_def array_get_def)
  from init_ex_succeeds [OF this] obtain st1 where
    op: "smg_uart_init_ex sample_h sample_alloc boot_producer_state sample_cfg = Inr (Some 1, st1)"
    by (auto simp: sample_alloc_def)
  define u where "u = (fresh_port sample_h sample_cfg)\<lparr>baud_rate := 115200\<rparr>"
  from init_ex_opened [OF op] have st1: "store st1 1 = Some u"
    "notifyCallbacks st1 = (\<lambda>i. None)(0 \<mapsto> feed_rx)"
    by (simp_all add: cbs u_def run_callback_def feed_rx_def sample_cfg_def)
  have u: "unat (uart_nr u) < UART_COUNT sample_h" "mode u \<noteq> UART_RX_ONLY" "mode u \<noteq> UART_TX_ONLY"
    "\<not> bit (options u) (UART_OPT_TXWAIT sample_h)" "uart_nr u = 0"
    "rx_buffer u = Some \<lparr>buf_capacity = 192, buf_data = []\<rparr>"
    "tx_buffer u = Some \<lparr>buf_capacity = 192, buf_data = []\<rparr>"
    by (simp_all add: u_def fresh_port_def sample_h_def sample_cfg_def)
  define v where "v = u\<lparr>rx_buffer := Some \<lparr>buf_capacity = 192, buf_data = []\<rparr>,
                         tx_buffer := Some \<lparr>buf_capacity = 192, buf_data = [65, 66, 67]\<rparr>\<rparr>"
  define st2 where "st2 = st1\<lparr>store := (store st1)(1 \<mapsto> v),
                               trace := trace st1 @ [EvNotify 0 UART_NOTIFY_AFTER_WRITE]\<rparr>"
  have "smg_uart_write sample_h st1 (Some 1) (Some [65, 66, 67]) = Some (Inr (3, st2))"
    using write_nowait [OF st1(1) u(1,2) _ u(4), of "[65, 66, 67]"] st1(2) u(5,6,7)
    by (simp add: st2_def v_def tx_space_def getFreeSpace_def enqueue_def run_callback_def feed_rx_def)
  then have wr: "write_all sample_h st1 1 [[65, 66, 67]] = Some (Inr ([65, 66, 67], st2))"
    by simp
  have v: "store st2 1 = Some v" "unat (uart_nr v) < UART_COUNT sample_h" "mode v \<noteq> UART_TX_ONLY"
    using u by (simp_all add: st2_def v_def)
  have cb: "run_callback (notifyCallbacks st2 (unat (uart_nr v))) UART_NOTIFY_BEFORE_READ
              (rx_buffer v, tx_buffer v) =
            (Some \<lparr>buf_capacity = 192, buf_data = [7]\<rparr>, tx_buffer v)"
    using u st1(2) by (simp add: st2_def v_def run_callback_def feed_rx_def writeChar_def)
  from read_live [OF v(1,2) cb v(3), of True 3]
  have "\<exists>st3. smg_uart_read sample_h st2 (Some 1) True 3 = Inr ([7], st3)"
    by (simp add: buffer_bytes_def)
  with op wr show ?thesis
    by (auto simp: open_write_read_def)
qed

section \<open>The claims\<close>

text \<open>
  C10. Port lookup is total over all identifier values: it never reads outside the
  table of instances, it answers null for every identifier at or above
  \<open>UART_COUNT\<close>, and a port is only ever returned for an identifier below
  \<open>UART_COUNT\<close>.
\<close>

theorem smg_uart_get_uart_total:
  "(\<exists>r. smg_uart_get_uart h st nr = Inr r) \<and>
   (UART_COUNT h \<le> unat nr \<longrightarrow> smg_uart_get_uart h st nr = Inr None) \<and>
   (\<forall>p. smg_uart_get_uart h st nr = Inr (Some p) \<longrightarrow> unat nr < UART_COUNT h)"
  by (simp add: smg_uart_get_uart_def array_get_def)

text \<open>Port 3 of three is answered with null, port 0 of the sample state is found.\<close>

theorem smg_uart_get_uart_total_witness:
  "UART_COUNT sample_h \<le> unat (3 :: 8 word) \<and>
   smg_uart_get_uart sample_h sample_state 3 = Inr None \<and>
   smg_uart_get_uart sample_h sample_state 0 = Inr (Some 1) \<and>
   unat (0 :: 8 word) < UART_COUNT sample_h"
  using smg_uart_get_uart_total [of sample_h sample_state 3]
    smg_uart_get_uart_total [of sample_h sample_state 0]
  by (simp add: sample_defs smg_uart_get_uart_def array_get_def)

text \<open>
  C1 (the code does not do this). Open port 0 in a fresh process, close it, open it
  again with the same configuration: \<open>smg_uart_uninit\<close> deletes the port object and
  never writes \<open>uartInstances\<close>, so the table still holds the address of the deleted
  object, lookup returns that address, and the second \<open>smg_uart_init_ex\<close> takes
  the port for initialised and returns null.
\<close>

theorem reopen_after_close_fails:
  "\<exists>st1 st2.
     smg_uart_init_ex sample_h sample_alloc (boot_state sample_h) sample_cfg = Inr (Some 1, st1) \<and>
     smg_uart_uninit sample_h st1 (Some 1) = Inr st2 \<and>
     store st2 1 = None \<and>
     smg_uart_get_uart sample_h st2 0 = Inr (Some 1) \<and>
     smg_uart_init_ex sample_h sample_alloc st2 sample_cfg = Inr (None, st2)"
proof -
  obtain st1 where
    op: "smg_uart_init_ex sample_h sample_alloc (boot_state sample_h) sample_cfg = Inr (Some 1, st1)"
    using sample_open by blast
  from init_ex_opened [OF op] obtain u where
    u: "store st1 = (store (boot_state sample_h))(1 \<mapsto> u)" "uart_nr u = 0"
    and reg: "uartInstances st1 = (uartInstances (boot_state sample_h))(0 \<mapsto> 1)"
    by (auto simp: sample_defs fresh_port_def)
  have live: "store st1 1 = Some u" "unat (uart_nr u) < UART_COUNT sample_h"
    using u by (simp_all add: sample_defs)
  from uninit_live [OF live] obtain st2 where
    cl: "smg_uart_uninit sample_h st1 (Some 1) = Inr st2"
    and st2: "store st2 = (store st1)(1 := None)" "uartInstances st2 = uartInstances st1"
    by blast
  have got: "smg_uart_get_uart sample_h st2 0 = Inr (Some 1)"
    using st2 reg by (simp add: smg_uart_get_uart_def array_get_def sample_defs)
  then have "init_fails sample_h sample_alloc st2 sample_cfg"
    by (simp add: init_fails_def sample_defs)
  from init_ex_failure [OF this] got
  have "smg_uart_init_ex sample_h sample_alloc st2 sample_cfg = Inr (None, st2)"
    by (simp add: sample_defs)
  with op cl st2 got show ?thesis
    by auto
qed

text \<open>
  C2. \<open>smg_uart_init_ex\<close> is atomic on failure. When the allocator hands out an
  address that is not in use: if the number is out of range or already registered,
  or one of the allocations fails, the call returns null and the state it leaves is
  the state it found, in every component (statics, port objects, number of live
  buffers, log); a null result is only ever returned in these cases; and after a
  successful open every further open with the same number returns null and changes
  nothing.
\<close>

theorem smg_uart_init_ex_atomic:
  assumes "\<forall>p. new_uart al = Some p \<longrightarrow> store st p = None"
  shows "(init_fails h al st cfg \<longrightarrow> smg_uart_init_ex h al st cfg = Inr (None, st)) \<and>
         (\<forall>st1. smg_uart_init_ex h al st cfg = Inr (None, st1) \<longrightarrow> init_fails h al st cfg \<and> st1 = st) \<and>
         (\<forall>p st1 al2 cfg2. smg_uart_init_ex h al st cfg = Inr (Some p, st1) \<longrightarrow>
                            cfg_uart_nr cfg2 = cfg_uart_nr cfg \<longrightarrow>
                            smg_uart_init_ex h al2 st1 cfg2 = Inr (None, st1))"
proof (intro conjI allI impI)
  assume "init_fails h al st cfg"
  from init_ex_failure [OF this] assms
  show "smg_uart_init_ex h al st cfg = Inr (None, st)"
    by (auto simp: delete_uart_fresh split: option.splits)
next
  fix st1
  assume r: "smg_uart_init_ex h al st cfg = Inr (None, st1)"
  show "init_fails h al st cfg"
    using init_ex_succeeds [of h al st cfg] r by auto
  from init_ex_failure [OF this] assms r
  show "st1 = st"
    by (auto simp: delete_uart_fresh split: option.splits)
next
  fix p st1 and al2 :: allocator and cfg2 :: smg_uart_config_t
  assume op: "smg_uart_init_ex h al st cfg = Inr (Some p, st1)"
    and same: "cfg_uart_nr cfg2 = cfg_uart_nr cfg"
  from init_ex_opened [OF op]
  have "\<not> init_fails h al st cfg"
    and reg: "uartInstances st1 = (uartInstances st)(unat (cfg_uart_nr cfg) \<mapsto> p)"
    by auto
  then have got: "smg_uart_get_uart h st1 (cfg_uart_nr cfg2) = Inr (Some p)"
    using same by (simp add: smg_uart_get_uart_def array_get_def init_fails_def)
  then have "init_fails h al2 st1 cfg2"
    by (simp add: init_fails_def)
  from init_ex_failure [OF this] got
  show "smg_uart_init_ex h al2 st1 cfg2 = Inr (None, st1)"
    by (simp split: option.splits)
qed


text \<open>The TX buffer cannot be allocated (the RX buffer was): the fresh state is
  returned as it was. A second open of port 0 after a first one changes nothing.\<close>

theorem smg_uart_init_ex_atomic_witness:
  "new_uart (sample_alloc\<lparr>new_tx_buffer := False\<rparr>) = Some 1 \<and>
   store (boot_state sample_h) 1 = None \<and>
   init_fails sample_h (sample_alloc\<lparr>new_tx_buffer := False\<rparr>) (boot_state sample_h) sample_cfg \<and>
   smg_uart_init_ex sample_h (sample_alloc\<lparr>new_tx_buffer := False\<rparr>) (boot_state sample_h) sample_cfg =
     Inr (None, boot_state sample_h) \<and>
   (\<exists>st1. smg_uart_init_ex sample_h sample_alloc (boot_state sample_h) sample_cfg = Inr (Some 1, st1) \<and>
          smg_uart_init_ex sample_h sample_alloc st1 sample_cfg = Inr (None, st1))"
proof -
  have fresh: "\<forall>p. new_uart (sample_alloc\<lparr>new_tx_buffer := False\<rparr>) = Some p \<longrightarrow>
                 store (boot_state sample_h) p = None"
    "\<forall>p. new_uart sample_alloc = Some p \<longrightarrow> store (boot_state sample_h) p = None"
    by (simp_all add: sample_defs)
  have fails: "init_fails sample_h (sample_alloc\<lparr>new_tx_buffer := False\<rparr>) (boot_state sample_h) sample_cfg"
    by (simp add: init_fails_def sample_defs)
  obtain st1 where
    op: "smg_uart_init_ex sample_h sample_alloc (boot_state sample_h) sample_cfg = Inr (Some 1, st1)"
    using sample_open by blast
  from smg_uart_init_ex_atomic [OF fresh(1), of sample_h sample_cfg] fails
  have "smg_uart_init_ex sample_h (sample_alloc\<lparr>new_tx_buffer := False\<rparr>) (boot_state sample_h) sample_cfg =
          Inr (None, boot_state sample_h)"
    by blast
  moreover from smg_uart_init_ex_atomic [OF fresh(2), of sample_h sample_cfg] op
  have "smg_uart_init_ex sample_h sample_alloc st1 sample_cfg = Inr (None, st1)"
    by blast
  moreover have "new_uart (sample_alloc\<lparr>new_tx_buffer := False\<rparr>) = Some 1"
    "store (boot_state sample_h) 1 = None"
    by (simp_all add: sample_defs)
  ultimately show ?thesis
    using fails op by blast
qed

text \<open>
  C5. For a live port, \<open>smg_uart_flush\<close> clears the RX buffer unless the requested
  mode is \<open>UART_TX_ONLY\<close> or the port is configured \<open>UART_TX_ONLY\<close>, clears the
  TX buffer unless the requested mode is \<open>UART_RX_ONLY\<close> or the port is configured
  \<open>UART_RX_ONLY\<close>, and changes nothing else. Hence a flush with \<open>UART_RX_ONLY\<close>
  leaves the TX buffer as it is, one with \<open>UART_TX_ONLY\<close> leaves the RX buffer as
  it is, and one with \<open>UART_FULL\<close> clears both; a cleared buffer holds no bytes.
\<close>

theorem smg_uart_flush_rule:
  assumes "store st p = Some u"
  shows "smg_uart_flush st (Some p) m =
           Inr (st\<lparr>store := (store st)(p \<mapsto> u
             \<lparr>rx_buffer := (if m \<noteq> UART_TX_ONLY \<and> mode u \<noteq> UART_TX_ONLY
                            then map_option clear (rx_buffer u) else rx_buffer u),
              tx_buffer := (if m \<noteq> UART_RX_ONLY \<and> mode u \<noteq> UART_RX_ONLY
                            then map_option clear (tx_buffer u) else tx_buffer u)\<rparr>)\<rparr>) \<and>
         smg_uart_flush st (Some p) UART_RX_ONLY =
           Inr (st\<lparr>store := (store st)(p \<mapsto> u
             \<lparr>rx_buffer := (if mode u \<noteq> UART_TX_ONLY
                            then map_option clear (rx_buffer u) else rx_buffer u)\<rparr>)\<rparr>) \<and>
         smg_uart_flush st (Some p) UART_TX_ONLY =
           Inr (st\<lparr>store := (store st)(p \<mapsto> u
             \<lparr>tx_buffer := (if mode u \<noteq> UART_RX_ONLY
                            then map_option clear (tx_buffer u) else tx_buffer u)\<rparr>)\<rparr>) \<and>
         smg_uart_flush st (Some p) UART_FULL =
           Inr (st\<lparr>store := (store st)(p \<mapsto> u
             \<lparr>rx_buffer := (if mode u \<noteq> UART_TX_ONLY
                            then map_option clear (rx_buffer u) else rx_buffer u),
              tx_buffer := (if mode u \<noteq> UART_RX_ONLY
                            then map_option clear (tx_buffer u) else tx_buffer u)\<rparr>)\<rparr>) \<and>
         buffer_bytes (map_option clear (rx_buffer u)) = [] \<and>
         buffer_bytes (map_option clear (tx_buffer u)) = []"
  by (simp add: flush_live [OF assms])

text \<open>Flushing RX on the sample port empties its RX buffer; the two bytes in its TX
  buffer stay.\<close>

theorem smg_uart_flush_rule_witness:
  "store sample_state 1 = Some sample_port \<and>
   smg_uart_flush sample_state (Some 1) UART_RX_ONLY =
     Inr (sample_state\<lparr>store := (store sample_state)(1 \<mapsto> sample_port
            \<lparr>rx_buffer := Some \<lparr>buf_capacity = 4, buf_data = []\<rparr>\<rparr>)\<rparr>) \<and>
   tx_buffer sample_port = Some \<lparr>buf_capacity = 2, buf_data = [3, 4]\<rparr>"
proof -
  have live: "store sample_state 1 = Some sample_port"
    by (simp add: sample_state_def)
  from smg_uart_flush_rule [OF live, of UART_RX_ONLY] live show ?thesis
    by (simp add: sample_port_def clear_def)
qed

text \<open>
  C7. On an absent port (a null pointer) or a live one, \<open>smg_uart_read\<close> returns no
  bytes and leaves the state as it is when RX is disabled, the destination is null
  or the size is 0; \<open>smg_uart_write\<close> returns 0 and leaves the state as it is when
  TX is disabled, the source is null or the size is 0.
\<close>

theorem read_write_noop:
  assumes "load st uart = Inr ou"
  shows "(\<not> smg_uart_rx_enabled ou \<or> \<not> buffer \<or> sz = 0 \<longrightarrow>
            smg_uart_read h st uart buffer sz = Inr ([], st)) \<and>
         (\<not> smg_uart_tx_enabled ou \<or> wbuffer = None \<or> wbuffer = Some [] \<longrightarrow>
            smg_uart_write h st uart wbuffer = Some (Inr (0, st)))"
  using assms
  by (auto simp: smg_uart_read_def smg_uart_write_def split: option.splits)

text \<open>A read and a write on a null port, a read of size 0 and a write from a null
  buffer on the sample port.\<close>

theorem read_write_noop_witness:
  "load sample_state None = Inr None \<and> \<not> smg_uart_rx_enabled None \<and>
   smg_uart_read sample_h sample_state None True 4 = Inr ([], sample_state) \<and>
   smg_uart_write sample_h sample_state None (Some [65]) = Some (Inr (0, sample_state)) \<and>
   load sample_state (Some 1) = Inr (Some sample_port) \<and>
   smg_uart_read sample_h sample_state (Some 1) True 0 = Inr ([], sample_state) \<and>
   smg_uart_write sample_h sample_state (Some 1) None = Some (Inr (0, sample_state))"
proof -
  have l: "load sample_state None = Inr None" "load sample_state (Some 1) = Inr (Some sample_port)"
    by (simp_all add: sample_state_def)
  from read_write_noop [OF l(1), where buffer = True and sz = 4 and wbuffer = "Some [65]" and h = sample_h]
    read_write_noop [OF l(2), where buffer = True and sz = 0 and wbuffer = None and h = sample_h] l
  show ?thesis
    by (simp add: smg_uart_rx_enabled_def smg_uart_tx_enabled_def)
qed

text \<open>
  C8. Closing a live port whose number is the debug port leaves the debug port at
  \<open>UART_NO\<close>: so it is after \<open>smg_uart_set_debug\<close> with the port's number followed
  by \<open>smg_uart_uninit\<close>. Closing a port whose number is not the debug port leaves the
  selection as it was.
\<close>

theorem debug_port_cleared_on_close:
  assumes "store st p = Some u" "unat (uart_nr u) < UART_COUNT h"
  shows "(\<exists>st1. smg_uart_uninit h (smg_uart_set_debug st (uint (uart_nr u))) (Some p) = Inr st1 \<and>
               smg_uart_get_debug st1 = UART_NO h) \<and>
         (\<exists>st1. smg_uart_uninit h st (Some p) = Inr st1 \<and>
               smg_uart_get_debug st1 =
                 (if uint (uart_nr u) = smg_uart_get_debug st then UART_NO h
                  else smg_uart_get_debug st))"
proof -
  have "store (smg_uart_set_debug st (uint (uart_nr u))) p = Some u"
    using assms(1) by (simp add: smg_uart_set_debug_def)
  from uninit_live [OF this assms(2)] uninit_live [OF assms]
  show ?thesis
    by (auto simp: smg_uart_get_debug_def smg_uart_set_debug_def)
qed

text \<open>The sample port is port 0: closing it resets a debug port of 0 to -1 and keeps
  a debug port of 2.\<close>

theorem debug_port_cleared_on_close_witness:
  "store sample_state 1 = Some sample_port \<and> unat (uart_nr sample_port) < UART_COUNT sample_h \<and>
   (\<exists>st1. smg_uart_uninit sample_h (smg_uart_set_debug sample_state 0) (Some 1) = Inr st1 \<and>
          smg_uart_get_debug st1 = - 1) \<and>
   (\<exists>st1. smg_uart_uninit sample_h (smg_uart_set_debug sample_state 2) (Some 1) = Inr st1 \<and>
          smg_uart_get_debug st1 = 2)"
proof -
  have live2: "store (smg_uart_set_debug sample_state 2) 1 = Some sample_port"
    by (simp add: sample_state_def smg_uart_set_debug_def)
  from debug_port_cleared_on_close [OF sample_state_live]
    debug_port_cleared_on_close [OF live2 sample_state_live(2)] sample_state_live
  show ?thesis
    by (simp add: sample_port_def sample_h_def smg_uart_get_debug_def smg_uart_set_debug_def)
qed

text \<open>
  C6 (as the code has it). \<open>smg_uart_uninit\<close> on a live port first calls \<open>notify\<close>
  with \<open>BEFORE_CLOSE\<close> and then disables the port's interrupt: these are the two
  events it adds to the log, in this order.
\<close>

theorem smg_uart_uninit_order:
  assumes "store st p = Some u" "unat (uart_nr u) < UART_COUNT h"
  shows "\<exists>st1. smg_uart_uninit h st (Some p) = Inr st1 \<and>
           trace st1 = trace st @ [EvNotify (uart_nr u) UART_NOTIFY_BEFORE_CLOSE, EvStopIsr (uart_nr u)] \<and>
           occurs_before (EvNotify (uart_nr u) UART_NOTIFY_BEFORE_CLOSE) (EvStopIsr (uart_nr u))
             [EvNotify (uart_nr u) UART_NOTIFY_BEFORE_CLOSE, EvStopIsr (uart_nr u)]"
  using uninit_live [OF assms] by (auto simp: occurs_before_def)

theorem smg_uart_uninit_order_witness:
  "store sample_state 1 = Some sample_port \<and> unat (uart_nr sample_port) < UART_COUNT sample_h \<and>
   (\<exists>st1. smg_uart_uninit sample_h sample_state (Some 1) = Inr st1 \<and>
          trace st1 = [EvNotify 0 UART_NOTIFY_BEFORE_CLOSE, EvStopIsr 0])"
  using smg_uart_uninit_order [OF sample_state_live] sample_state_live
  by (auto simp: sample_port_def sample_state_def)

text \<open>
  C6 as stated, with the interrupt disabled before \<open>BEFORE_CLOSE\<close> is fired, fails
  on the sample state: the log of the close is the notification followed by the
  disabling.
\<close>

theorem disarm_before_notify_counterexample:
  "map_sum id trace (smg_uart_uninit sample_h sample_state (Some 1)) =
     Inr [EvNotify 0 UART_NOTIFY_BEFORE_CLOSE, EvStopIsr 0] \<and>
   \<not> occurs_before (EvStopIsr 0) (EvNotify 0 UART_NOTIFY_BEFORE_CLOSE)
        [EvNotify 0 UART_NOTIFY_BEFORE_CLOSE, EvStopIsr 0]"
  using uninit_live [OF sample_state_live]
  by (auto simp: occurs_before_def sample_port_def sample_state_def)

text \<open>
  C9 (as the code has it). Every port that \<open>smg_uart_init_ex\<close> opens has the
  headroom \<open>DEFAULT_RX_HEADROOM\<close>, which is 32 - (\<open>UART_RX_FIFO_SIZE\<close> - 120),
  whatever the configuration.
\<close>

theorem smg_uart_init_ex_headroom:
  assumes "smg_uart_init_ex h al st cfg = Inr (Some p, st1)"
  shows "\<exists>u. store st1 p = Some u \<and> rx_headroom u = DEFAULT_RX_HEADROOM h \<and>
             DEFAULT_RX_HEADROOM h = 32 - (int (UART_RX_FIFO_SIZE h) - 120)"
  using init_ex_opened [OF assms]
  by (auto simp: fresh_port_def DEFAULT_RX_HEADROOM_def RX_FIFO_HEADROOM_def RX_FIFO_FULL_THRESHOLD_def)

theorem smg_uart_init_ex_headroom_witness:
  "\<exists>st1 u. smg_uart_init_ex sample_h sample_alloc (boot_state sample_h) sample_cfg = Inr (Some 1, st1) \<and>
      store st1 1 = Some u \<and> rx_headroom u = 24"
proof -
  obtain st1 where
    op: "smg_uart_init_ex sample_h sample_alloc (boot_state sample_h) sample_cfg = Inr (Some 1, st1)"
    using sample_open by blast
  from smg_uart_init_ex_headroom [OF op] op show ?thesis
    by (auto simp: sample_h_def)
qed

text \<open>
  C9 as stated lets the configuration override the headroom. With 128-byte FIFOs no
  configuration opens a port with a headroom other than 24.
\<close>

theorem headroom_from_configuration_counterexample:
  "\<not> (\<exists>cfg p st1 u.
        smg_uart_init_ex sample_h sample_alloc (boot_state sample_h) cfg = Inr (Some p, st1) \<and>
        store st1 p = Some u \<and> rx_headroom u \<noteq> 24)"
proof
  assume "\<exists>cfg p st1 u.
        smg_uart_init_ex sample_h sample_alloc (boot_state sample_h) cfg = Inr (Some p, st1) \<and>
        store st1 p = Some u \<and> rx_headroom u \<noteq> 24"
  then obtain cfg p st1 u where
    op: "smg_uart_init_ex sample_h sample_alloc (boot_state sample_h) cfg = Inr (Some p, st1)"
    and u: "store st1 p = Some u" "rx_headroom u \<noteq> 24"
    by blast
  from init_ex_opened [OF op] u(1) have "rx_headroom u = DEFAULT_RX_HEADROOM sample_h"
    by (auto simp: fresh_port_def)
  with u(2) show False
    by (simp add: DEFAULT_RX_HEADROOM_def RX_FIFO_HEADROOM_def RX_FIFO_FULL_THRESHOLD_def sample_h_def)
qed


text \<open>
  C3. A write of at least one byte to a live port with TX enabled. The room in the TX
  buffer is what \<open>smg_uart_tx_free\<close> reports. With the wait option unset the call
  makes one pass: it returns the number of bytes that fit (none on a full buffer),
  has put these bytes into the TX buffer and has called \<open>notify\<close> with
  \<open>AFTER_WRITE\<close> once. With the wait option set, whatever the callback does, a call
  that returns has returned the full length after a series of passes as
  \<open>wait_passes\<close> describes them: each pass appends to the TX buffer the next bytes
  of the caller's buffer that fit, then calls \<open>notify\<close> with \<open>AFTER_WRITE\<close>, and
  the pass that brings the count to the full length is the last; the chunks the
  passes have appended, put end to end, are the caller's buffer, and the log has
  grown by one notification for each pass. With a TX buffer of positive capacity and
  a cooperating consumer registered as the port's callback, the call does return, in
  this way.
\<close>

theorem smg_uart_write_policy:
  assumes "store st p = Some u" "unat (uart_nr u) < UART_COUNT h" "mode u \<noteq> UART_RX_ONLY" "buf \<noteq> []"
  shows "smg_uart_tx_free st (Some p) = Inr (tx_space u) \<and>
         (\<not> bit (options u) (UART_OPT_TXWAIT h) \<longrightarrow>
            (\<exists>st1. smg_uart_write h st (Some p) (Some buf) =
                      Some (Inr (min (length buf) (tx_space u), st1)) \<and>
                   trace st1 = trace st @ [EvNotify (uart_nr u) UART_NOTIFY_AFTER_WRITE] \<and>
                   store st1 = (store st)(p \<mapsto> u
                     \<lparr>rx_buffer := fst (run_callback (notifyCallbacks st (unat (uart_nr u)))
                                         UART_NOTIFY_AFTER_WRITE (rx_buffer u, enqueue (tx_buffer u) buf)),
                      tx_buffer := snd (run_callback (notifyCallbacks st (unat (uart_nr u)))
                                         UART_NOTIFY_AFTER_WRITE (rx_buffer u, enqueue (tx_buffer u) buf))\<rparr>))) \<and>
         (bit (options u) (UART_OPT_TXWAIT h) \<longrightarrow>
            (\<forall>n st1. smg_uart_write h st (Some p) (Some buf) = Some (Inr (n, st1)) \<longrightarrow>
               n = length buf \<and>
               (\<exists>chunks. wait_passes p buf 0 st chunks st1 \<and> concat chunks = buf \<and>
                  trace st1 = trace st @
                    replicate (length chunks) (EvNotify (uart_nr u) UART_NOTIFY_AFTER_WRITE)))) \<and>
         (bit (options u) (UART_OPT_TXWAIT h) \<longrightarrow>
          (\<exists>b. tx_buffer u = Some b \<and> 0 < buf_capacity b) \<longrightarrow>
          (\<exists>cb. notifyCallbacks st (unat (uart_nr u)) = Some cb \<and> cooperating_consumer cb) \<longrightarrow>
            (\<exists>st1 k chunks.
               smg_uart_write h st (Some p) (Some buf) = Some (Inr (length buf, st1)) \<and> 0 < k \<and>
               trace st1 = trace st @ replicate k (EvNotify (uart_nr u) UART_NOTIFY_AFTER_WRITE) \<and>
               length chunks = k \<and> wait_passes p buf 0 st chunks st1 \<and> concat chunks = buf))"
proof -
  have len: "0 < length buf"
    using assms(4) by simp
  have wr: "smg_uart_write h st (Some p) (Some buf) = write_loop h p buf 0 st"
    by (rule smg_uart_write_live [OF assms(1,3,4)])
  have partial: "n = length buf \<and>
      (\<exists>chunks. wait_passes p buf 0 st chunks st1 \<and> concat chunks = buf \<and>
         trace st1 = trace st @ replicate (length chunks) (EvNotify (uart_nr u) UART_NOTIFY_AFTER_WRITE))"
    if wait: "bit (options u) (UART_OPT_TXWAIT h)"
      and ret: "smg_uart_write h st (Some p) (Some buf) = Some (Inr (n, st1))" for n st1
  proof -
    from ret wr have "write_loop h p buf 0 st = Some (Inr (n, st1))"
      by simp
    from write_loop_waits [OF this assms(1,2) wait len] obtain chunks where
      n: "n = length buf" and c: "wait_passes p buf 0 st chunks st1"
      by blast
    from wait_passes_sum [OF c assms(1)] n c show ?thesis
      by auto
  qed
  show ?thesis
  proof (intro conjI impI allI)
    show "smg_uart_tx_free st (Some p) = Inr (tx_space u)"
      by (rule tx_free_live [OF assms(1,3)])
  next
    assume "\<not> bit (options u) (UART_OPT_TXWAIT h)"
    from write_nowait [OF assms this]
    show "\<exists>st1. smg_uart_write h st (Some p) (Some buf) =
                      Some (Inr (min (length buf) (tx_space u), st1)) \<and>
                   trace st1 = trace st @ [EvNotify (uart_nr u) UART_NOTIFY_AFTER_WRITE] \<and>
                   store st1 = (store st)(p \<mapsto> u
                     \<lparr>rx_buffer := fst (run_callback (notifyCallbacks st (unat (uart_nr u)))
                                         UART_NOTIFY_AFTER_WRITE (rx_buffer u, enqueue (tx_buffer u) buf)),
                      tx_buffer := snd (run_callback (notifyCallbacks st (unat (uart_nr u)))
                                         UART_NOTIFY_AFTER_WRITE (rx_buffer u, enqueue (tx_buffer u) buf))\<rparr>)"
      by simp
  next
    fix n st1
    assume "bit (options u) (UART_OPT_TXWAIT h)"
      and "smg_uart_write h st (Some p) (Some buf) = Some (Inr (n, st1))"
    from partial [OF this] show "n = length buf" by simp
  next
    fix n st1
    assume "bit (options u) (UART_OPT_TXWAIT h)"
      and "smg_uart_write h st (Some p) (Some buf) = Some (Inr (n, st1))"
    from partial [OF this]
    show "\<exists>chunks. wait_passes p buf 0 st chunks st1 \<and> concat chunks = buf \<and>
            trace st1 = trace st @ replicate (length chunks) (EvNotify (uart_nr u) UART_NOTIFY_AFTER_WRITE)"
      by simp
  next
    assume wait: "bit (options u) (UART_OPT_TXWAIT h)"
      and "\<exists>b. tx_buffer u = Some b \<and> 0 < buf_capacity b"
      and "\<exists>cb. notifyCallbacks st (unat (uart_nr u)) = Some cb \<and> cooperating_consumer cb"
    then obtain b cb where b: "tx_buffer u = Some b" "0 < buf_capacity b"
      and cb: "notifyCallbacks st (unat (uart_nr u)) = Some cb" "cooperating_consumer cb"
      by blast
    from write_loop_wait [OF cb(2) assms(1,2) wait cb(1) b len] obtain st1 k where
      ret: "smg_uart_write h st (Some p) (Some buf) = Some (Inr (length buf, st1))"
      and k: "0 < k" "trace st1 = trace st @ replicate k (EvNotify (uart_nr u) UART_NOTIFY_AFTER_WRITE)"
      by (auto simp: wr)
    from partial [OF wait ret] obtain chunks where
      c: "wait_passes p buf 0 st chunks st1" "concat chunks = buf"
        "trace st1 = trace st @ replicate (length chunks) (EvNotify (uart_nr u) UART_NOTIFY_AFTER_WRITE)"
      by blast
    from k(2) c(3) have "length chunks = k"
      by (metis append_eq_append_conv length_replicate)
    with ret k c show "\<exists>st1 k chunks.
               smg_uart_write h st (Some p) (Some buf) = Some (Inr (length buf, st1)) \<and> 0 < k \<and>
               trace st1 = trace st @ replicate k (EvNotify (uart_nr u) UART_NOTIFY_AFTER_WRITE) \<and>
               length chunks = k \<and> wait_passes p buf 0 st chunks st1 \<and> concat chunks = buf"
      by blast
  qed
qed

text \<open>Three bytes for the full TX buffer of the sample port: without the wait option
  the call returns 0; with it and the draining consumer it returns 3 after three
  passes that append nothing, bytes 5 and 6, and byte 7, each drained in turn.\<close>

theorem smg_uart_write_policy_witness:
  "store sample_state 1 = Some sample_port \<and> \<not> bit (options sample_port) (UART_OPT_TXWAIT sample_h) \<and>
   tx_space sample_port = 0 \<and>
   (\<exists>st1. smg_uart_write sample_h sample_state (Some 1) (Some [5, 6, 7]) = Some (Inr (0, st1))) \<and>
   store sample_wait_state 1 = Some (sample_port\<lparr>options := 1\<rparr>) \<and>
   bit (options (sample_port\<lparr>options := 1\<rparr>)) (UART_OPT_TXWAIT sample_h) \<and>
   notifyCallbacks sample_wait_state 0 = Some drain_tx \<and> cooperating_consumer drain_tx \<and>
   (\<exists>st1 chunks. smg_uart_write sample_h sample_wait_state (Some 1) (Some [5, 6, 7]) = Some (Inr (3, st1)) \<and>
      wait_passes 1 [5, 6, 7] 0 sample_wait_state chunks st1 \<and> concat chunks = [5, 6, 7]) \<and>
   smg_uart_write sample_h sample_wait_state (Some 1) (Some [5, 6, 7]) =
     Some (Inr (3, sample_wait_state
       \<lparr>store := (\<lambda>p. None)(1 \<mapsto> sample_port
           \<lparr>options := 1, tx_buffer := Some \<lparr>buf_capacity = 2, buf_data = []\<rparr>\<rparr>),
        trace := [EvNotify 0 UART_NOTIFY_AFTER_WRITE, EvNotify 0 UART_NOTIFY_AFTER_WRITE,
                  EvNotify 0 UART_NOTIFY_AFTER_WRITE]\<rparr>)) \<and>
   wait_passes 1 [5, 6, 7] 0 sample_wait_state [[], [5, 6], [7]]
     (sample_wait_state
       \<lparr>store := (\<lambda>p. None)(1 \<mapsto> sample_port
           \<lparr>options := 1, tx_buffer := Some \<lparr>buf_capacity = 2, buf_data = []\<rparr>\<rparr>),
        trace := [EvNotify 0 UART_NOTIFY_AFTER_WRITE, EvNotify 0 UART_NOTIFY_AFTER_WRITE,
                  EvNotify 0 UART_NOTIFY_AFTER_WRITE]\<rparr>)"
proof -
  have live: "store sample_state 1 = Some sample_port" "unat (uart_nr sample_port) < UART_COUNT sample_h"
    "mode sample_port \<noteq> UART_RX_ONLY" "\<not> bit (options sample_port) (UART_OPT_TXWAIT sample_h)"
    "tx_space sample_port = 0"
    by (simp_all add: sample_defs tx_space_def getFreeSpace_def)
  have livew: "store sample_wait_state 1 = Some (sample_port\<lparr>options := 1\<rparr>)"
    "unat (uart_nr (sample_port\<lparr>options := 1\<rparr>)) < UART_COUNT sample_h"
    "mode (sample_port\<lparr>options := 1\<rparr>) \<noteq> UART_RX_ONLY"
    "bit (options (sample_port\<lparr>options := 1\<rparr>)) (UART_OPT_TXWAIT sample_h)"
    "notifyCallbacks sample_wait_state (unat (uart_nr (sample_port\<lparr>options := 1\<rparr>))) = Some drain_tx"
    "\<exists>b. tx_buffer (sample_port\<lparr>options := 1\<rparr>) = Some b \<and> 0 < buf_capacity b"
    by (simp_all add: sample_defs sample_wait_state_def)
  have ne: "[5, 6, 7 :: byte] \<noteq> []"
    by simp
  have nowait: "\<exists>st1. smg_uart_write sample_h sample_state (Some 1) (Some [5, 6, 7]) =
                   Some (Inr (min (length [5, 6, 7 :: byte]) (tx_space sample_port), st1)) \<and>
                 trace st1 = trace sample_state @ [EvNotify (uart_nr sample_port) UART_NOTIFY_AFTER_WRITE] \<and>
                 store st1 = (store sample_state)(1 \<mapsto> sample_port
                   \<lparr>rx_buffer := fst (run_callback (notifyCallbacks sample_state (unat (uart_nr sample_port)))
                                       UART_NOTIFY_AFTER_WRITE
                                       (rx_buffer sample_port, enqueue (tx_buffer sample_port) [5, 6, 7])),
                    tx_buffer := snd (run_callback (notifyCallbacks sample_state (unat (uart_nr sample_port)))
                                       UART_NOTIFY_AFTER_WRITE
                                       (rx_buffer sample_port, enqueue (tx_buffer sample_port) [5, 6, 7]))\<rparr>)"
    using smg_uart_write_policy [OF live(1,2,3) ne, THEN conjunct2, THEN conjunct1] live(4)
    by (rule mp)
  then have a: "\<exists>st1. smg_uart_write sample_h sample_state (Some 1) (Some [5, 6, 7]) = Some (Inr (0, st1))"
    using live(5) by auto
  have coop: "\<exists>cb. notifyCallbacks sample_wait_state (unat (uart_nr (sample_port\<lparr>options := 1\<rparr>))) = Some cb \<and>
                cooperating_consumer cb"
    using livew(5) drain_tx_cooperates by blast
  have "\<exists>st1 k chunks.
          smg_uart_write sample_h sample_wait_state (Some 1) (Some [5, 6, 7]) =
            Some (Inr (length [5, 6, 7 :: byte], st1)) \<and> 0 < k \<and>
          trace st1 = trace sample_wait_state @
            replicate k (EvNotify (uart_nr (sample_port\<lparr>options := 1\<rparr>)) UART_NOTIFY_AFTER_WRITE) \<and>
          length chunks = k \<and> wait_passes 1 [5, 6, 7] 0 sample_wait_state chunks st1 \<and>
          concat chunks = [5, 6, 7]"
    using smg_uart_write_policy [OF livew(1,2,3) ne, THEN conjunct2, THEN conjunct2, THEN conjunct2]
      livew(4,6) coop
    by (rule mp [OF mp [OF mp]])
  then have b: "\<exists>st1 chunks. smg_uart_write sample_h sample_wait_state (Some 1) (Some [5, 6, 7]) =
                    Some (Inr (3, st1)) \<and>
                  wait_passes 1 [5, 6, 7] 0 sample_wait_state chunks st1 \<and> concat chunks = [5, 6, 7]"
    by auto
  have c: "notifyCallbacks sample_wait_state 0 = Some drain_tx"
    by (simp add: sample_wait_state_def)
  show ?thesis
    using live(1,4,5) a livew(1,4) c drain_tx_cooperates b sample_wait_run(2,1)
    by (intro conjI)
qed

text \<open>
  C4 as stated does not hold: \<open>smg_uart_read\<close> calls \<open>notify\<close> with
  \<open>BEFORE_READ\<close> before it takes anything from the RX buffer, so a callback that
  puts a byte there makes the read return more bytes than were available at the call,
  and bytes that no write has written. What holds instead, for a read of at least one
  byte from a live port with RX enabled: the callback registered for the port, if
  any, works on the buffers; then the read returns the oldest \<open>min size n\<close> of the
  \<open>n\<close> bytes the RX buffer holds at that moment, in their order, and leaves the
  others in the buffer. When the callback leaves the RX buffer as it was, \<open>n\<close> is
  the number \<open>smg_uart_rx_available\<close> reported at the call. And with no producer of
  received data behind the port (the callback registered for it, if any, leaves the
  RX buffer alone), a read after any number of writes to a freshly opened port
  returns no byte at all, which is the empty prefix of the bytes written: the writes
  fill the TX buffer, the read drains the RX buffer, and nothing in uart.cpp moves a
  byte from one to the other.
\<close>

theorem smg_uart_read_fifo:
  assumes "store st p = Some u" "unat (uart_nr u) < UART_COUNT h"
    and "run_callback (notifyCallbacks st (unat (uart_nr u))) UART_NOTIFY_BEFORE_READ
           (rx_buffer u, tx_buffer u) = (rx1, tx1)"
    and "mode u \<noteq> UART_TX_ONLY" "buffer" "0 < sz"
  shows "smg_uart_read h st (Some p) buffer sz =
           Inr (take sz (buffer_bytes rx1),
                st\<lparr>store := (store st)(p \<mapsto> u
                      \<lparr>rx_buffer := map_option (\<lambda>b. b\<lparr>buf_data := drop sz (buf_data b)\<rparr>) rx1,
                       tx_buffer := tx1\<rparr>),
                   trace := trace st @ [EvNotify (uart_nr u) UART_NOTIFY_BEFORE_READ]\<rparr>) \<and>
         prefix (take sz (buffer_bytes rx1)) (buffer_bytes rx1) \<and>
         length (take sz (buffer_bytes rx1)) \<le> length (buffer_bytes rx1) \<and>
         length (take sz (buffer_bytes rx1)) \<le> sz \<and>
         smg_uart_rx_available st (Some p) = Inr (length (buffer_bytes (rx_buffer u))) \<and>
         (rx1 = rx_buffer u \<longrightarrow>
            (\<exists>avail. smg_uart_rx_available st (Some p) = Inr avail \<and>
                     length (take sz (buffer_bytes rx1)) \<le> avail)) \<and>
         (smg_uart_init_ex h0 al st0 cfg = Inr (Some q, st2) \<longrightarrow>
          (\<forall>cb. notifyCallbacks st0 (unat (cfg_uart_nr cfg)) = Some cb \<longrightarrow> rx_inert cb) \<longrightarrow>
          write_all h0 st2 q bufs = Some (Inr (written, st3)) \<longrightarrow>
            (\<exists>bytes st4 avail.
                smg_uart_read h0 st3 (Some q) buffer0 sz0 = Inr (bytes, st4) \<and>
                smg_uart_rx_available st3 (Some q) = Inr avail \<and>
                prefix bytes written \<and> length bytes \<le> avail \<and> length bytes \<le> sz0 \<and>
                bytes = []))"
proof (intro conjI impI)
  show "smg_uart_read h st (Some p) buffer sz =
           Inr (take sz (buffer_bytes rx1),
                st\<lparr>store := (store st)(p \<mapsto> u
                      \<lparr>rx_buffer := map_option (\<lambda>b. b\<lparr>buf_data := drop sz (buf_data b)\<rparr>) rx1,
                       tx_buffer := tx1\<rparr>),
                   trace := trace st @ [EvNotify (uart_nr u) UART_NOTIFY_BEFORE_READ]\<rparr>)"
    by (rule read_live [OF assms])
  show "prefix (take sz (buffer_bytes rx1)) (buffer_bytes rx1)"
    by (rule take_is_prefix)
  show "length (take sz (buffer_bytes rx1)) \<le> length (buffer_bytes rx1)"
    by simp
  show "length (take sz (buffer_bytes rx1)) \<le> sz"
    by simp
  show avail: "smg_uart_rx_available st (Some p) = Inr (length (buffer_bytes (rx_buffer u)))"
    using smg_uart_rx_available_live [OF assms(1)] assms(4) by simp
  show "\<exists>avail. smg_uart_rx_available st (Some p) = Inr avail \<and>
                 length (take sz (buffer_bytes rx1)) \<le> avail"
    if "rx1 = rx_buffer u"
    using avail that by simp
next
  assume op: "smg_uart_init_ex h0 al st0 cfg = Inr (Some q, st2)"
    and inert: "\<forall>cb. notifyCallbacks st0 (unat (cfg_uart_nr cfg)) = Some cb \<longrightarrow> rx_inert cb"
    and wr: "write_all h0 st2 q bufs = Some (Inr (written, st3))"
  from opened_quiet [OF op inert] obtain v where
    v: "rx_quiet h0 st2 q v" "buffer_bytes (rx_buffer v) = []"
    by blast
  from write_all_quiet [OF wr v(1)] v(2) obtain v2 where
    v2: "rx_quiet h0 st3 q v2" "buffer_bytes (rx_buffer v2) = []"
    by auto
  have "store st3 q = Some v2"
    using v2(1) by (simp add: rx_quiet_def)
  from smg_uart_read_quiet [OF v2(1), of buffer0 sz0] smg_uart_rx_available_live [OF this] v2(2)
  show "\<exists>bytes st4 avail.
          smg_uart_read h0 st3 (Some q) buffer0 sz0 = Inr (bytes, st4) \<and>
          smg_uart_rx_available st3 (Some q) = Inr avail \<and>
          prefix bytes written \<and> length bytes \<le> avail \<and> length bytes \<le> sz0 \<and>
          bytes = []"
    by auto
qed

text \<open>A read of three bytes from the sample port behind the producer, which holds
  two; a read of one byte from the sample port with no callback; and port 0 opened in
  a fresh process, three bytes written, two asked for.\<close>

theorem smg_uart_read_fifo_witness:
  "store sample_producer_state 1 = Some sample_port \<and>
   run_callback (notifyCallbacks sample_producer_state (unat (uart_nr sample_port)))
     UART_NOTIFY_BEFORE_READ (rx_buffer sample_port, tx_buffer sample_port) =
     (Some \<lparr>buf_capacity = 4, buf_data = [1, 2, 7]\<rparr>, tx_buffer sample_port) \<and>
   (\<exists>st1. smg_uart_read sample_h sample_producer_state (Some 1) True 3 = Inr ([1, 2, 7], st1)) \<and>
   store sample_state 1 = Some sample_port \<and>
   run_callback (notifyCallbacks sample_state (unat (uart_nr sample_port)))
     UART_NOTIFY_BEFORE_READ (rx_buffer sample_port, tx_buffer sample_port) =
     (rx_buffer sample_port, tx_buffer sample_port) \<and>
   (\<exists>st1. smg_uart_read sample_h sample_state (Some 1) True 1 = Inr ([1], st1)) \<and>
   smg_uart_rx_available sample_state (Some 1) = Inr 2 \<and>
   (\<exists>st1 written st2 st3.
      smg_uart_init_ex sample_h sample_alloc (boot_state sample_h) sample_cfg = Inr (Some 1, st1) \<and>
      notifyCallbacks (boot_state sample_h) (unat (cfg_uart_nr sample_cfg)) = None \<and>
      write_all sample_h st1 1 [[65, 66, 67]] = Some (Inr (written, st2)) \<and>
      smg_uart_read sample_h st2 (Some 1) True 2 = Inr ([], st3))"
proof -
  have md: "mode sample_port \<noteq> UART_TX_ONLY"
    by (simp add: sample_port_def)
  have cbp: "run_callback (notifyCallbacks sample_producer_state (unat (uart_nr sample_port)))
               UART_NOTIFY_BEFORE_READ (rx_buffer sample_port, tx_buffer sample_port) =
             (Some \<lparr>buf_capacity = 4, buf_data = [1, 2, 7]\<rparr>, tx_buffer sample_port)"
    by (simp add: sample_producer_live)
  have cbn: "run_callback (notifyCallbacks sample_state (unat (uart_nr sample_port)))
               UART_NOTIFY_BEFORE_READ (rx_buffer sample_port, tx_buffer sample_port) =
             (rx_buffer sample_port, tx_buffer sample_port)"
    by (simp add: sample_defs run_callback_def)
  obtain st1 where
    op: "smg_uart_init_ex sample_h sample_alloc (boot_state sample_h) sample_cfg = Inr (Some 1, st1)"
    using sample_open by blast
  have none: "notifyCallbacks (boot_state sample_h) (unat (cfg_uart_nr sample_cfg)) = None"
    by (simp add: sample_defs)
  then have inert: "\<forall>cb. notifyCallbacks (boot_state sample_h) (unat (cfg_uart_nr sample_cfg)) = Some cb
                      \<longrightarrow> rx_inert cb"
    by simp
  from init_ex_opened [OF op] obtain u where
    u: "store st1 1 = Some u" "uart_nr u = 0" "mode u = UART_FULL" "options u = 0"
    by (auto simp: fresh_port_def sample_defs)
  have "\<exists>n st2. smg_uart_write sample_h st1 (Some 1) (Some [65, 66, 67]) = Some (Inr (n, st2))"
    using write_nowait [of st1 1 u sample_h "[65, 66, 67]"] u
    by (simp add: sample_h_def)
  then obtain written st2 where
    wr: "write_all sample_h st1 1 [[65, 66, 67]] = Some (Inr (written, st2))"
    by auto
  note a = smg_uart_read_fifo [OF sample_producer_live(1) sample_state_live(2) cbp md,
      where buffer = True and sz = 3 and ?h0.0 = sample_h and al = sample_alloc
        and ?st0.0 = "boot_state sample_h" and cfg = sample_cfg and q = 1 and ?st2.0 = st1
        and bufs = "[[65, 66, 67]]" and written = written and ?st3.0 = st2
        and ?buffer0.0 = True and ?sz0.0 = 2]
  have r1: "\<exists>st1. smg_uart_read sample_h sample_producer_state (Some 1) True 3 = Inr ([1, 2, 7], st1)"
    using a [THEN conjunct1] by (simp add: buffer_bytes_def)
  have "smg_uart_init_ex sample_h sample_alloc (boot_state sample_h) sample_cfg = Inr (Some 1, st1) \<longrightarrow>
          (\<forall>cb. notifyCallbacks (boot_state sample_h) (unat (cfg_uart_nr sample_cfg)) = Some cb
                   \<longrightarrow> rx_inert cb) \<longrightarrow>
          write_all sample_h st1 1 [[65, 66, 67]] = Some (Inr (written, st2)) \<longrightarrow>
            (\<exists>bytes st4 avail.
                smg_uart_read sample_h st2 (Some 1) True 2 = Inr (bytes, st4) \<and>
                smg_uart_rx_available st2 (Some 1) = Inr avail \<and>
                prefix bytes written \<and> length bytes \<le> avail \<and> length bytes \<le> 2 \<and>
                bytes = [])"
    using a by simp
  with op inert wr have r3: "\<exists>st3. smg_uart_read sample_h st2 (Some 1) True 2 = Inr ([], st3)"
    by blast
  note b = smg_uart_read_fifo [OF sample_state_live cbn md, where buffer = True and sz = 1]
  have r2: "\<exists>st1. smg_uart_read sample_h sample_state (Some 1) True 1 = Inr ([1], st1)"
    "smg_uart_rx_available sample_state (Some 1) = Inr 2"
    using b [THEN conjunct1] b [THEN conjunct2, THEN conjunct2, THEN conjunct2, THEN conjunct2, THEN conjunct1]
    by (simp_all add: buffer_bytes_def sample_port_def)
  from sample_producer_live(1) cbp r1 sample_state_live(1) cbn r2 op none wr r3
  show ?thesis
    by blast
qed

text \<open>
  C4 as stated, on the sample port behind the producer: two bytes are available and
  a read of three returns three. And on port 0, opened after the producer has been
  registered for it: the bytes 65, 66 and 67 are written and the read returns the
  byte 7, which is no prefix of them.
\<close>

theorem read_prefix_of_written_counterexample:
  "smg_uart_rx_available sample_producer_state (Some 1) = Inr 2 \<and>
   (\<exists>st1. smg_uart_read sample_h sample_producer_state (Some 1) True 3 = Inr ([1, 2, 7], st1)) \<and>
   open_write_read sample_h sample_alloc boot_producer_state sample_cfg [[65, 66, 67]] 3 =
     Some (Inr ([65, 66, 67], [7])) \<and>
   \<not> prefix [7 :: byte] [65, 66, 67]"
proof -
  have "smg_uart_rx_available sample_producer_state (Some 1) = Inr 2"
    using smg_uart_rx_available_live [OF sample_producer_live(1)]
    by (simp add: sample_port_def buffer_bytes_def)
  with sample_producer_read boot_producer_run show ?thesis
    by simp
qed

end
